theory Spec2Isabelle
  imports Main "HOL-Library.Sublist"
begin

section \<open>Python values, exceptions and library functions\<close>

text \<open>
  The values that can sit in a progress payload or in \<open>self.downloaded_file\<close>. A string
  is the list of its characters, with code points below 256; the bytes a subprocess prints
  are a list of the same type.
\<close>

datatype pyval = PNone | PBool bool | PInt int | PStr string

text \<open>
  Exception classes. All of them derive from \<open>Exception\<close>; \<open>CalledProcessError\<close> and
  \<open>TimeoutExpired\<close> derive from \<open>subprocess.SubprocessError\<close>, \<open>FileNotFoundError\<close> and
  \<open>PermissionError\<close> from \<open>OSError\<close>. An exception carries the text that \<open>str(e)\<close> returns.
\<close>

datatype exn_class =
    KeyError | TypeError
  | SubprocessError | CalledProcessError | TimeoutExpired
  | OSError | FileNotFoundError | PermissionError
  | DownloadError | OtherException

datatype exn = Exn exn_class string

fun py_str :: "exn \<Rightarrow> string" where
  "py_str (Exn c t) = t"

fun is_SubprocessError :: "exn \<Rightarrow> bool" where
  "is_SubprocessError (Exn c t) = (c = SubprocessError \<or> c = CalledProcessError \<or> c = TimeoutExpired)"

fun py_truthy :: "pyval \<Rightarrow> bool" where
  "py_truthy PNone = False"
| "py_truthy (PBool b) = b"
| "py_truthy (PInt i) = (i \<noteq> 0)"
| "py_truthy (PStr s) = (s \<noteq> [])"

fun type_name :: "pyval \<Rightarrow> string" where
  "type_name PNone = ''NoneType''"
| "type_name (PBool b) = ''bool''"
| "type_name (PInt i) = ''int''"
| "type_name (PStr s) = ''str''"

text \<open>\<open>os.fspath\<close>, which every \<open>os.path\<close> function applies to its argument first: a value that is no path raises.\<close>

fun fspath :: "pyval \<Rightarrow> exn + string" where
  "fspath (PStr s) = Inr s"
| "fspath v = Inl (Exn TypeError (''expected str, bytes or os.PathLike object, not '' @ type_name v))"

text \<open>\<open>str.rfind\<close> of a single character: the index of its last occurrence, or -1.\<close>

definition rfind :: "char \<Rightarrow> string \<Rightarrow> int" where
  "rfind c p =
     (if c \<in> set p then int (length p) - 1 - int (length (takeWhile (\<lambda>x. x \<noteq> c) (rev p)))
      else -1)"

text \<open>\<open>posixpath.basename\<close> of a string: \<open>i = p.rfind('/') + 1; return p[i:]\<close>.\<close>

definition basename :: "string \<Rightarrow> string" where
  "basename p = drop (nat (rfind CHR ''/'' p + 1)) p"

text \<open>
  \<open>posixpath.splitext\<close> of a string (\<open>genericpath._splitext\<close> with separator \<open>/\<close> and
  extension separator \<open>.\<close>): the extension starts at the last dot of the last component,
  unless that component has nothing but dots before it.
\<close>

function splitext_loop :: "string \<Rightarrow> nat \<Rightarrow> nat \<Rightarrow> string \<times> string" where
  "splitext_loop p filenameIndex dotIndex =
     (if filenameIndex < dotIndex then
        (if take 1 (drop filenameIndex p) \<noteq> ''.'' then (take dotIndex p, drop dotIndex p)
         else splitext_loop p (filenameIndex + 1) dotIndex)
      else (p, []))"
  by pat_completeness auto
termination
  by (relation "measure (\<lambda>(p, filenameIndex, dotIndex). dotIndex - filenameIndex)") auto

definition splitext :: "string \<Rightarrow> string \<times> string" where
  "splitext p =
     (let sepIndex = rfind CHR ''/'' p; dotIndex = rfind CHR ''.'' p
      in if dotIndex > sepIndex then splitext_loop p (nat (sepIndex + 1)) (nat dotIndex)
         else (p, []))"

text \<open>\<open>posixpath.join\<close> of a directory and one relative component.\<close>

definition path_join :: "string \<Rightarrow> string \<Rightarrow> string" where
  "path_join a b =
     (if take 1 b = ''/'' then b
      else if a = [] \<or> (a \<noteq> [] \<and> last a = CHR ''/'') then a @ b
      else a @ ''/'' @ b)"

text \<open>
  \<open>str.lower\<close>: below 256 the upper case letters are \<open>A\<close> to \<open>Z\<close> and the code points 192
  to 222 without 215 (the multiplication sign); each is 32 below its lower case letter.
\<close>

definition lower_char :: "char \<Rightarrow> char" where
  "lower_char c =
     (let n = (of_char c :: nat)
      in if (65 \<le> n \<and> n \<le> 90) \<or> (192 \<le> n \<and> n \<le> 222 \<and> n \<noteq> 215) then char_of (n + 32)
         else c)"

definition lower :: "string \<Rightarrow> string" where
  "lower s = map lower_char s"

text \<open>
  \<open>bytes.strip()\<close> removes ASCII whitespace (space, tab, newline, carriage return, vertical
  tab, form feed) at both ends; \<open>str.strip()\<close> removes every character for which
  \<open>str.isspace\<close> holds: below 256 these are the same six, the four separator controls 28 to
  31, the next-line control 133 and the no-break space 160.
\<close>

definition bytes_space :: "char \<Rightarrow> bool" where
  "bytes_space c = ((of_char c :: nat) \<in> {9, 10, 11, 12, 13, 32})"

definition str_space :: "char \<Rightarrow> bool" where
  "str_space c = ((of_char c :: nat) \<in> {9, 10, 11, 12, 13, 28, 29, 30, 31, 32, 133, 160})"

definition strip_with :: "(char \<Rightarrow> bool) \<Rightarrow> string \<Rightarrow> string" where
  "strip_with sp s = rev (dropWhile sp (rev (dropWhile sp s)))"

definition startswith :: "string \<Rightarrow> string \<Rightarrow> bool" where
  "startswith msg pre = (take (length pre) msg = pre)"

text \<open>\<open>str(n)\<close> of an integer: its decimal digits, after a minus sign when it is negative.\<close>

fun digits :: "nat \<Rightarrow> string" where
  "digits n = (if n < 10 then [char_of (48 + n)] else digits (n div 10) @ [char_of (48 + n mod 10)])"

definition py_str_int :: "int \<Rightarrow> string" where
  "py_str_int i = (if i < 0 then ''-'' @ digits (nat (- i)) else digits (nat i))"

text \<open>
  \<open>repr(s)\<close> of a string. The quote is \<open>'\<close>, or \<open>"\<close> when the string has a \<open>'\<close> and no
  \<open>"\<close>. The quote and the backslash get a backslash before them; tab, newline and carriage
  return become \<open>\t\<close>, \<open>\n\<close> and \<open>\r\<close>; a printable character stands for itself (below 256:
  32 to 126, and 161 to 255 without the soft hyphen 173); any other character becomes
  \<open>\x\<close> and its two lower case hexadecimal digits.
\<close>

definition hexdigit :: "nat \<Rightarrow> char" where
  "hexdigit n = (if n < 10 then char_of (48 + n) else char_of (87 + n))"

definition py_printable :: "char \<Rightarrow> bool" where
  "py_printable c =
     (let n = (of_char c :: nat)
      in (32 \<le> n \<and> n < 127) \<or> (161 \<le> n \<and> n \<noteq> 173))"

definition repr_char :: "char \<Rightarrow> char \<Rightarrow> string" where
  "repr_char quote c =
     (if c = quote \<or> c = CHR 0x5C then [CHR 0x5C, c]
      else if c = CHR 0x09 then [CHR 0x5C, CHR ''t'']
      else if c = CHR 0x0A then [CHR 0x5C, CHR ''n'']
      else if c = CHR 0x0D then [CHR 0x5C, CHR ''r'']
      else if py_printable c then [c]
      else [CHR 0x5C, CHR ''x'', hexdigit ((of_char c :: nat) div 16),
            hexdigit ((of_char c :: nat) mod 16)])"

definition py_repr :: "string \<Rightarrow> string" where
  "py_repr s =
     (let quote = (if CHR 0x27 \<in> set s \<and> CHR 0x22 \<notin> set s then CHR 0x22 else CHR 0x27)
      in [quote] @ concat (map (repr_char quote) s) @ [quote])"

text \<open>\<open>sep.join(xs)\<close>, and \<open>str(xs)\<close> of a list of strings.\<close>

fun join :: "string \<Rightarrow> string list \<Rightarrow> string" where
  "join sep [] = []"
| "join sep [x] = x"
| "join sep (x # y # ys) = x @ sep @ join sep (y # ys)"

definition py_str_list :: "string list \<Rightarrow> string" where
  "py_str_list xs = ''['' @ join '', '' (map py_repr xs) @ '']''"

text \<open>
  \<open>subprocess.CalledProcessError.__str__\<close>: the text is built from the command and the
  return code. A negative return code is the number of the signal that ended the process;
  \<open>signal.Signals\<close>, the table of the platform's signal names, is a parameter.
\<close>

definition called_process_error_str ::
  "(nat \<Rightarrow> string option) \<Rightarrow> string list \<Rightarrow> int \<Rightarrow> string" where
  "called_process_error_str signals cmd returncode =
     (if returncode < 0 then
        (case signals (nat (- returncode)) of
           Some name \<Rightarrow>
             ''Command '' @ [CHR 0x27] @ py_str_list cmd @ [CHR 0x27] @ '' died with <Signals.''
               @ name @ '': '' @ py_str_int (- returncode) @ ''>.''
         | None \<Rightarrow>
             ''Command '' @ [CHR 0x27] @ py_str_list cmd @ [CHR 0x27]
               @ '' died with unknown signal '' @ py_str_int (- returncode) @ ''.'')
      else
        ''Command '' @ [CHR 0x27] @ py_str_list cmd @ [CHR 0x27]
          @ '' returned non-zero exit status '' @ py_str_int returncode @ ''.'')"

section \<open>The option set handed to yt-dlp\<close>

text \<open>
  \<open>ydl_opts\<close> is a Python dict: an association list in insertion order, where storing
  under an existing key replaces the value in place. A postprocessor is itself a dict of
  strings.
\<close>

type_synonym postprocessor = "(string \<times> string) list"

datatype optval =
    OStr string
  | OBool bool
  | OLogger                     \<comment> \<open>\<open>CustomLogger(self)\<close>\<close>
  | OHooks                      \<comment> \<open>\<open>[self.progress_hook]\<close>\<close>
  | OPostprocessors "postprocessor list"

type_synonym ydl_opts = "(string \<times> optval) list"

fun dict_set :: "string \<Rightarrow> optval \<Rightarrow> ydl_opts \<Rightarrow> ydl_opts" where
  "dict_set k v [] = [(k, v)]"
| "dict_set k v ((k', v') # kvs) = (if k = k' then (k, v) # kvs else (k', v') # dict_set k v kvs)"

text \<open>\<open>dict.update\<close> with a dict literal stores the literal's items from left to right.\<close>

fun dict_update :: "(string \<times> optval) list \<Rightarrow> ydl_opts \<Rightarrow> ydl_opts" where
  "dict_update [] d = d"
| "dict_update ((k, v) # kvs) d = dict_update kvs (dict_set k v d)"

definition dict_get :: "ydl_opts \<Rightarrow> string \<Rightarrow> optval option" where
  "dict_get d k = map_of d k"

text \<open>\<open>ydl_opts.get('postprocessors', [])\<close>; only a list is ever stored under that key.\<close>

definition get_postprocessors :: "ydl_opts \<Rightarrow> postprocessor list" where
  "get_postprocessors d =
     (case dict_get d ''postprocessors'' of Some (OPostprocessors pps) \<Rightarrow> pps | _ \<Rightarrow> [])"

definition extract_audio_pp :: postprocessor where
  "extract_audio_pp =
     [(''key'', ''FFmpegExtractAudio''), (''preferredcodec'', ''mp3''), (''preferredquality'', ''192'')]"

definition thumbnail_pp :: postprocessor where
  "thumbnail_pp = [(''key'', ''FFmpegThumbnailsConvertor''), (''format'', ''jpg'')]"

text \<open>Lines 35 to 75 of \<open>download_video\<close>: the option set built from the request.\<close>

definition build_ydl_opts :: "string \<Rightarrow> string \<Rightarrow> bool \<Rightarrow> bool \<Rightarrow> ydl_opts" where
  "build_ydl_opts output_dir selected_format with_subtitles with_thumbnail =
     (let opts0 = [(''outtmpl'', OStr (path_join output_dir ''%(title)s.%(ext)s'')),
                   (''logger'', OLogger),
                   (''progress_hooks'', OHooks),
                   (''quiet'', OBool True)];
          opts1 =
            (if selected_format = ''mp3'' then
               dict_update [(''format'', OStr ''bestaudio/best''),
                            (''postprocessors'', OPostprocessors [extract_audio_pp])] opts0
             else if selected_format = ''mp4'' then
               dict_update [(''format'', OStr ''bestvideo[ext=mp4]+bestaudio[ext=m4a]/best[ext=mp4]/best'')] opts0
             else if selected_format = ''webm'' then
               dict_update [(''format'', OStr ''bestvideo[ext=webm]+bestaudio[ext=webm]/best[ext=webm]/best'')] opts0
             else opts0);
          opts2 =
            (if with_subtitles then
               dict_update [(''writesubtitles'', OBool True), (''writeautomaticsub'', OBool True)] opts1
             else opts1)
      in if with_thumbnail then
           (let postprocessors = get_postprocessors opts2 @ [thumbnail_pp]
            in dict_update [(''writethumbnail'', OBool True),
                            (''postprocessors'', OPostprocessors postprocessors)] opts2)
         else opts2)"

section \<open>Notifications, the environment and the downloader object\<close>

text \<open>
  The data dict of a \<open>downloading\<close> progress update, and the calls that reach the
  callbacks registered with the downloader (its notification channel).
\<close>

record progress_data =
  percent :: pyval
  speed :: pyval
  eta :: pyval

datatype notification =
    LogMessage string
  | UpdateProgress string "progress_data option"
  | OnComplete
  | OnError string

fun is_terminal :: "notification \<Rightarrow> bool" where
  "is_terminal OnComplete = True"
| "is_terminal (OnError m) = True"
| "is_terminal n = False"

text \<open>
  What the worker does that is visible from outside, in the order in which it happens: a
  callback is called, the download call is entered and left, the worker sleeps, a
  subprocess is run, a file is removed.
\<close>

datatype event =
    Notify notification
  | YdlCall ydl_opts string
  | YdlReturn
  | YdlRaise exn
  | Sleep nat
  | Run "string list"
  | OsRemove string

fun is_notify_terminal :: "event \<Rightarrow> bool" where
  "is_notify_terminal (Notify n) = is_terminal n"
| "is_notify_terminal e = False"

fun is_subprocess :: "event \<Rightarrow> bool" where
  "is_subprocess (Run cmd) = True"
| "is_subprocess e = False"

fun is_transcode_event :: "event \<Rightarrow> bool" where
  "is_transcode_event (Sleep n) = True"
| "is_transcode_event (Run cmd) = True"
| "is_transcode_event (OsRemove p) = True"
| "is_transcode_event e = False"

text \<open>
  The downloader object: \<open>self.callbacks\<close> maps a name to a callback, which returns
  normally (\<open>None\<close>) or raises; \<open>self.downloaded_file\<close>; and the history of events. The
  attribute \<open>downloaded_file\<close> is written before every read, so its value before the first
  write does not matter.
\<close>

record world =
  callbacks :: "string \<rightharpoonup> (notification \<Rightarrow> exn option)"
  downloaded_file :: pyval
  trace :: "event list"

text \<open>
  A progress payload is a dict. During \<open>ydl.download\<close> the External Downloader calls the
  progress hook and the logger it was given, any number of times, and then returns or
  raises.
\<close>

type_synonym payload = "string \<rightharpoonup> pyval"

datatype dl_action =
    Hook payload
  | LogDebug string
  | LogInfo string
  | LogWarning string
  | LogError string

datatype proc_result =
    SpawnRaises exn                 \<comment> \<open>the program could not be started\<close>
  | Exited int string string        \<comment> \<open>return code, captured stdout, captured stderr\<close>

text \<open>
  The collaborators, as the worker sees them: what the External Downloader does for an
  option set and a URL; how a command line ends; the names of the platform's signals; and
  whether removing a file raises.
\<close>

record env =
  downloader :: "ydl_opts \<Rightarrow> string \<Rightarrow> dl_action list \<times> exn option"
  spawn :: "string list \<Rightarrow> proc_result"
  signal_names :: "nat \<Rightarrow> string option"
  remove_raises :: "string \<Rightarrow> exn option"

text \<open>A statement returns normally (\<open>None\<close>) or raises, and leaves a new state.\<close>

type_synonym outcome = "exn option \<times> world"

definition and_then :: "outcome \<Rightarrow> (world \<Rightarrow> outcome) \<Rightarrow> outcome" where
  "and_then r k = (case r of (Some e, s) \<Rightarrow> (Some e, s) | (None, s) \<Rightarrow> k s)"

text \<open>A call of the callback registered under a name, if there is one.\<close>

definition call_callback :: "string \<Rightarrow> notification \<Rightarrow> world \<Rightarrow> outcome" where
  "call_callback name n s =
     (case callbacks s name of
        None \<Rightarrow> (None, s)
      | Some cb \<Rightarrow> (cb n, s\<lparr>trace := trace s @ [Notify n]\<rparr>))"

definition log_message :: "string \<Rightarrow> world \<Rightarrow> outcome" where
  "log_message message s = call_callback ''log_message'' (LogMessage message) s"

definition update_progress :: "string \<Rightarrow> progress_data option \<Rightarrow> world \<Rightarrow> outcome" where
  "update_progress status data s = call_callback ''update_progress'' (UpdateProgress status data) s"

definition on_complete :: "world \<Rightarrow> outcome" where
  "on_complete s = call_callback ''on_complete'' OnComplete s"

definition on_error :: "string \<Rightarrow> world \<Rightarrow> outcome" where
  "on_error error_msg s = call_callback ''on_error'' (OnError error_msg) s"

section \<open>The progress hook and the logger\<close>

text \<open>\<open>d.get(key, 'N/A')\<close> and its like.\<close>

definition payload_get :: "payload \<Rightarrow> string \<Rightarrow> string \<Rightarrow> pyval" where
  "payload_get d k dflt = (case d k of None \<Rightarrow> PStr dflt | Some v \<Rightarrow> v)"

text \<open>
  \<open>YtDlpDownloader.progress_hook\<close>. \<open>d['status']\<close> raises \<open>KeyError\<close> when the key is
  missing; the body of the \<open>downloading\<close> branch sits in \<open>try: ... except: pass\<close>; the
  \<open>finished\<close> branch has no handler.
\<close>

definition progress_hook :: "payload \<Rightarrow> world \<Rightarrow> outcome" where
  "progress_hook d s =
     (case d ''status'' of
        None \<Rightarrow> (Some (Exn KeyError ([CHR 0x27] @ ''status'' @ [CHR 0x27])), s)
      | Some status \<Rightarrow>
          if status = PStr ''downloading'' then
            (let progress_data = \<lparr>percent = payload_get d ''_percent_str'' ''N/A'',
                                  speed = payload_get d ''_speed_str'' ''N/A'',
                                  eta = payload_get d ''_eta_str'' ''N/A''\<rparr>
             in case update_progress ''downloading'' (Some progress_data) s of
                  (r, s') \<Rightarrow> (None, s'))
          else if status = PStr ''finished'' then
            (let filename = payload_get d ''filename'' ''Unknown'';
                 s1 = s\<lparr>downloaded_file := filename\<rparr>
             in case fspath filename of
                  Inl e \<Rightarrow> (Some e, s1)
                | Inr p \<Rightarrow>
                    and_then (log_message (''Download finished: '' @ basename p) s1)
                      (update_progress ''processing'' None))
          else (None, s))"

text \<open>\<open>CustomLogger\<close>.\<close>

definition logger_info :: "string \<Rightarrow> world \<Rightarrow> outcome" where
  "logger_info msg s = log_message msg s"

definition logger_debug :: "string \<Rightarrow> world \<Rightarrow> outcome" where
  "logger_debug msg s = (if \<not> startswith msg ''[debug] '' then logger_info msg s else (None, s))"

definition logger_warning :: "string \<Rightarrow> world \<Rightarrow> outcome" where
  "logger_warning msg s = log_message (''Warning: '' @ msg) s"

definition logger_error :: "string \<Rightarrow> world \<Rightarrow> outcome" where
  "logger_error msg s = log_message (''Error: '' @ msg) s"

section \<open>The External Downloader and subprocesses\<close>

fun do_action :: "dl_action \<Rightarrow> world \<Rightarrow> outcome" where
  "do_action (Hook d) s = progress_hook d s"
| "do_action (LogDebug m) s = logger_debug m s"
| "do_action (LogInfo m) s = logger_info m s"
| "do_action (LogWarning m) s = logger_warning m s"
| "do_action (LogError m) s = logger_error m s"

text \<open>An exception that leaves a hook or the logger ends the download call with it.\<close>

fun run_actions :: "dl_action list \<Rightarrow> world \<Rightarrow> outcome" where
  "run_actions [] s = (None, s)"
| "run_actions (a # as) s = and_then (do_action a s) (run_actions as)"

text \<open>\<open>with yt_dlp.YoutubeDL(ydl_opts) as ydl: ydl.download([url])\<close>.\<close>

definition ydl_download :: "env \<Rightarrow> ydl_opts \<Rightarrow> string \<Rightarrow> world \<Rightarrow> outcome" where
  "ydl_download E opts url s =
     (case downloader E opts url of
        (acts, fin) \<Rightarrow>
          (case run_actions acts (s\<lparr>trace := trace s @ [YdlCall opts url]\<rparr>) of
             (Some e, s') \<Rightarrow> (Some e, s'\<lparr>trace := trace s' @ [YdlRaise e]\<rparr>)
           | (None, s') \<Rightarrow>
               (case fin of
                  Some e \<Rightarrow> (Some e, s'\<lparr>trace := trace s' @ [YdlRaise e]\<rparr>)
                | None \<Rightarrow> (None, s'\<lparr>trace := trace s' @ [YdlReturn]\<rparr>))))"

text \<open>
  \<open>subprocess.run(cmd, check=..., stdout=PIPE, stderr=PIPE)\<close>: the result is the
  captured standard output, or an exception; with \<open>check=True\<close> a return code other than
  0 raises \<open>CalledProcessError\<close>.
\<close>

definition subprocess_run :: "env \<Rightarrow> string list \<Rightarrow> bool \<Rightarrow> world \<Rightarrow> (exn + string) \<times> world" where
  "subprocess_run E cmd check s =
     (let s' = s\<lparr>trace := trace s @ [Run cmd]\<rparr>
      in case spawn E cmd of
           SpawnRaises e \<Rightarrow> (Inl e, s')
         | Exited rc out err \<Rightarrow>
             if check \<and> rc \<noteq> 0 then (Inl (Exn CalledProcessError (called_process_error_str (signal_names E) cmd rc)), s')
             else (Inr out, s'))"

definition os_remove :: "env \<Rightarrow> string \<Rightarrow> world \<Rightarrow> outcome" where
  "os_remove E p s = (remove_raises E p, s\<lparr>trace := trace s @ [OsRemove p]\<rparr>)"

definition time_sleep :: "nat \<Rightarrow> world \<Rightarrow> world" where
  "time_sleep n s = s\<lparr>trace := trace s @ [Sleep n]\<rparr>"

section \<open>The worker: \<open>download_video\<close>\<close>

definition ffprobe_cmd :: "string \<Rightarrow> string list" where
  "ffprobe_cmd src =
     [''ffprobe'', ''-v'', ''error'', ''-select_streams'', ''v:0'',
      ''-show_entries'', ''stream=codec_type'', ''-of'', ''csv=p=0'', src]"

definition ffmpeg_video_cmd :: "string \<Rightarrow> string \<Rightarrow> string list" where
  "ffmpeg_video_cmd src mp4_file =
     [''ffmpeg'', ''-y'', ''-i'', src, ''-c:v'', ''libx264'', ''-preset'', ''ultrafast'',
      ''-c:a'', ''copy'', mp4_file]"

definition ffmpeg_audio_cmd :: "string \<Rightarrow> string \<Rightarrow> string list" where
  "ffmpeg_audio_cmd src mp4_file =
     [''ffmpeg'', ''-y'', ''-i'', src, ''-vn'', ''-c:a'', ''copy'', mp4_file]"

text \<open>Lines 92 to 125: the body of the inner \<open>try\<close>.\<close>

definition convert_try :: "env \<Rightarrow> string \<Rightarrow> string \<Rightarrow> world \<Rightarrow> outcome" where
  "convert_try E src mp4_file s =
     (case subprocess_run E (ffprobe_cmd src) False s of
        (Inl e, s1) \<Rightarrow> (Some e, s1)
      | (Inr stdout, s1) \<Rightarrow>
          (let has_video = (strip_with bytes_space stdout \<noteq> []);
               cmd = (if has_video then ffmpeg_video_cmd src mp4_file
                      else ffmpeg_audio_cmd src mp4_file)
           in case subprocess_run E cmd True s1 of
                (Inl e, s2) \<Rightarrow> (Some e, s2)
              | (Inr out, s2) \<Rightarrow>
                  and_then (os_remove E src s2)
                    (log_message (''Converted to mp4: '' @ basename mp4_file))))"

text \<open>
  How the conversion block ends: the worker goes on to \<open>self.on_complete()\<close>, or it has
  returned from \<open>download_video\<close> (the \<open>return\<close> of the inner handler), or an exception is
  on its way to the outer handler.
\<close>

datatype flow = Proceed | Returned | Raised exn

text \<open>
  Lines 85 to 128: the block under \<open>if selected_format == 'best' and convert_to_mp4 and
  self.downloaded_file\<close>. The inner handler takes \<open>subprocess.SubprocessError\<close> only.
\<close>

definition convert_step :: "env \<Rightarrow> world \<Rightarrow> flow \<times> world" where
  "convert_step E s =
     (let s1 = time_sleep 2 s
      in case fspath (downloaded_file s1) of
           Inl e \<Rightarrow> (Raised e, s1)
         | Inr src \<Rightarrow>
             (case splitext src of
                (base, ext) \<Rightarrow>
                  if lower ext \<noteq> ''.mp4'' then
                    (let mp4_file = base @ ''.mp4''
                     in case convert_try E src mp4_file s1 of
                          (None, s2) \<Rightarrow> (Proceed, s2)
                        | (Some e, s2) \<Rightarrow>
                            if is_SubprocessError e then
                              (case on_error (''ffmpeg conversion failed: '' @ py_str e) s2 of
                                 (None, s3) \<Rightarrow> (Returned, s3)
                               | (Some e', s3) \<Rightarrow> (Raised e', s3))
                            else (Raised e, s2))
                  else (Proceed, s1)))"

text \<open>Lines 78 to 81: the start message, the reset of the recorded file, the download call.\<close>

definition download_video_fetch :: "env \<Rightarrow> string \<Rightarrow> ydl_opts \<Rightarrow> world \<Rightarrow> outcome" where
  "download_video_fetch E url opts s =
     and_then (log_message (''Starting download of '' @ url) s)
       (\<lambda>s1. ydl_download E opts url (s1\<lparr>downloaded_file := PNone\<rparr>))"

text \<open>Lines 78 to 130: the body of the outer \<open>try\<close>.\<close>

definition download_video_try ::
  "env \<Rightarrow> string \<Rightarrow> ydl_opts \<Rightarrow> string \<Rightarrow> bool \<Rightarrow> world \<Rightarrow> outcome" where
  "download_video_try E url opts selected_format convert_to_mp4 s =
     and_then (download_video_fetch E url opts s)
       (\<lambda>s3. if selected_format = ''best'' \<and> convert_to_mp4 \<and> py_truthy (downloaded_file s3) then
                (case convert_step E s3 of
                   (Raised e, s4) \<Rightarrow> (Some e, s4)
                 | (Returned, s4) \<Rightarrow> (None, s4)
                 | (Proceed, s4) \<Rightarrow> on_complete s4)
              else on_complete s3)"

text \<open>
  \<open>YtDlpDownloader.download_video\<close>: every exception of the body is turned into one call
  of \<open>on_error\<close> with its text.
\<close>

definition download_video ::
  "env \<Rightarrow> string \<Rightarrow> string \<Rightarrow> string \<Rightarrow> bool \<Rightarrow> bool \<Rightarrow> bool \<Rightarrow> world \<Rightarrow> outcome" where
  "download_video E url output_dir selected_format with_subtitles with_thumbnail convert_to_mp4 s =
     (let ydl_opts = build_ydl_opts output_dir selected_format with_subtitles with_thumbnail
      in case download_video_try E url ydl_opts selected_format convert_to_mp4 s of
           (None, s') \<Rightarrow> (None, s')
         | (Some e, s') \<Rightarrow> on_error (py_str e) s')"

text \<open>
  \<open>YtDlpDownloader.start_download\<close> hands \<open>download_video\<close> to a new thread; the three
  flags are optional and default to \<open>False\<close>. The worker is run to its end here, and an
  exception that leaves it ends the thread only.
\<close>

definition arg_or_default :: "bool option \<Rightarrow> bool \<Rightarrow> bool" where
  "arg_or_default a dflt = (case a of None \<Rightarrow> dflt | Some b \<Rightarrow> b)"

definition start_download ::
  "env \<Rightarrow> string \<Rightarrow> string \<Rightarrow> string \<Rightarrow> bool option \<Rightarrow> bool option \<Rightarrow> bool option \<Rightarrow> world \<Rightarrow> world" where
  "start_download E url output_dir selected_format with_subtitles with_thumbnail convert_to_mp4 s =
     snd (download_video E url output_dir selected_format
            (arg_or_default with_subtitles False)
            (arg_or_default with_thumbnail False)
            (arg_or_default convert_to_mp4 False) s)"

section \<open>The window\<close>

text \<open>
  The widgets that \<open>YtDlpGui.start_download\<close> reads and writes, the message boxes shown
  so far, and the downloader the window owns.
\<close>

record gui =
  url_entry :: string
  format_combo :: string
  output_dir_entry :: string
  subtitles_check :: bool
  thumbnail_check :: bool
  progress_bar_visible :: bool
  status_label :: string
  message_boxes :: "(string \<times> string \<times> string) list"
  downloader_obj :: world

text \<open>The callbacks of the window's downloader: four signal emitters, which return normally.\<close>

definition gui_callbacks :: "string \<rightharpoonup> (notification \<Rightarrow> exn option)" where
  "gui_callbacks =
     [''log_message'' \<mapsto> (\<lambda>n. None), ''update_progress'' \<mapsto> (\<lambda>n. None),
      ''on_complete'' \<mapsto> (\<lambda>n. None), ''on_error'' \<mapsto> (\<lambda>n. None)]"

definition gui_start_download :: "env \<Rightarrow> gui \<Rightarrow> gui" where
  "gui_start_download E g =
     (let url = strip_with str_space (url_entry g)
      in if url = [] then
           g\<lparr>message_boxes := message_boxes g @ [(''warning'', ''Error'', ''Please enter a URL'')]\<rparr>
         else
           (let g1 = g\<lparr>progress_bar_visible := True, status_label := ''Downloading...''\<rparr>;
                output_dir = output_dir_entry g1;
                selected_format = format_combo g1;
                with_subtitles = subtitles_check g1;
                with_thumbnail = thumbnail_check g1
            in g1\<lparr>downloader_obj :=
                    start_download E url output_dir selected_format
                      (Some with_subtitles) (Some with_thumbnail) None (downloader_obj g1)\<rparr>))"

section \<open>Notions used in the statements\<close>

text \<open>
  The events that the progress hook and the logger can add to the history: calls of the
  log and progress callbacks.
\<close>

fun is_hook_event :: "event \<Rightarrow> bool" where
  "is_hook_event (Notify (LogMessage m)) = True"
| "is_hook_event (Notify (UpdateProgress st data)) = True"
| "is_hook_event e = False"

text \<open>An event other than the notification of a terminal outcome.\<close>

abbreviation not_terminal :: "event \<Rightarrow> bool" where
  "not_terminal e \<equiv> \<not> is_notify_terminal e"

text \<open>
  \<open>grows P s s'\<close>: the state \<open>s'\<close> has the callbacks of \<open>s\<close>, and its history is the one
  of \<open>s\<close> followed by events that satisfy \<open>P\<close>.
\<close>

definition grows :: "(event \<Rightarrow> bool) \<Rightarrow> world \<Rightarrow> world \<Rightarrow> bool" where
  "grows P s s' = (callbacks s' = callbacks s \<and> (\<exists>evs. trace s' = trace s @ evs \<and> list_all P evs))"

text \<open>
  A sample run: the downloader logs two debug lines, reports progress once, reports the
  finished file \<open>/tmp/out/clip.webm\<close> and returns; the probe prints a video stream; every
  command exits with 0; two signals have a name. \<open>gui_world\<close> is the downloader of a fresh
  window.
\<close>

definition demo_signals :: "nat \<Rightarrow> string option" where
  "demo_signals n = (if n = 9 then Some ''SIGKILL'' else if n = 15 then Some ''SIGTERM'' else None)"

definition demo_env :: env where
  "demo_env =
     \<lparr>downloader = (\<lambda>opts url.
        ([LogDebug ''[debug] Command-line config'',
          LogDebug ''[youtube] Extracting URL'',
          Hook [''status'' \<mapsto> PStr ''downloading'', ''_percent_str'' \<mapsto> PStr '' 50.0%''],
          Hook [''status'' \<mapsto> PStr ''finished'', ''filename'' \<mapsto> PStr ''/tmp/out/clip.webm'']],
         None)),
      spawn = (\<lambda>cmd. if take 1 cmd = [''ffprobe''] then Exited 0 ''video'' [] else Exited 0 [] []),
      signal_names = demo_signals,
      remove_raises = (\<lambda>p. None)\<rparr>"

definition gui_world :: world where
  "gui_world = \<lparr>callbacks = gui_callbacks, downloaded_file = PNone, trace = []\<rparr>"

text \<open>A progress notification that carries the status \<open>finished\<close>.\<close>

fun is_finished_event :: "event \<Rightarrow> bool" where
  "is_finished_event (Notify (UpdateProgress st data)) = (st = ''finished'')"
| "is_finished_event e = False"

text \<open>A downloader that hands the progress hook one payload without a \<open>status\<close> entry.\<close>

definition no_status_env :: env where
  "no_status_env =
     \<lparr>downloader = (\<lambda>opts url. ([Hook [''_percent_str'' \<mapsto> PStr '' 50.0%'']], None)),
      spawn = (\<lambda>cmd. Exited 0 [] []),
      signal_names = demo_signals,
      remove_raises = (\<lambda>p. None)\<rparr>"

text \<open>The events of the download call itself.\<close>

fun is_ydl_event :: "event \<Rightarrow> bool" where
  "is_ydl_event (YdlCall opts url) = True"
| "is_ydl_event YdlReturn = True"
| "is_ydl_event (YdlRaise e) = True"
| "is_ydl_event e = False"

text \<open>
  \<open>extends P s s'\<close>: the state \<open>s'\<close> is \<open>s\<close> with events that satisfy \<open>P\<close> added to its
  history, and nothing else changed.
\<close>

definition extends :: "(event \<Rightarrow> bool) \<Rightarrow> world \<Rightarrow> world \<Rightarrow> bool" where
  "extends P s s' = (\<exists>evs. s' = s\<lparr>trace := trace s @ evs\<rparr> \<and> list_all P evs)"

text \<open>The outer \<open>except Exception\<close> of \<open>download_video\<close>, applied to the outcome of the body.\<close>

definition outer_handler :: "outcome \<Rightarrow> outcome" where
  "outer_handler x = (case x of (None, s') \<Rightarrow> (None, s') | (Some e, s') \<Rightarrow> on_error (py_str e) s')"


text \<open>
  A downloader that reports the finished file \<open>/tmp/out/talk.m4a\<close>; the probe prints an
  empty line, as it does for a file without a video stream.
\<close>

definition audio_only_env :: env where
  "audio_only_env =
     \<lparr>downloader = (\<lambda>opts url.
        ([Hook [''status'' \<mapsto> PStr ''finished'', ''filename'' \<mapsto> PStr ''/tmp/out/talk.m4a'']], None)),
      spawn = (\<lambda>cmd. if take 1 cmd = [''ffprobe''] then Exited 0 [CHR 0x0A] [] else Exited 0 [] []),
      signal_names = demo_signals,
      remove_raises = (\<lambda>p. None)\<rparr>"

text \<open>A run in which ffmpeg exits with 1 and writes a diagnostic to its standard error.\<close>

definition ffmpeg_fails_env :: env where
  "ffmpeg_fails_env =
     \<lparr>downloader = (\<lambda>opts url.
        ([Hook [''status'' \<mapsto> PStr ''finished'', ''filename'' \<mapsto> PStr ''/tmp/out/clip.webm'']], None)),
      spawn = (\<lambda>cmd. if take 1 cmd = [''ffprobe''] then Exited 0 ''video'' []
                     else Exited 1 [] ''/tmp/out/clip.webm: Invalid data found when processing input''),
      signal_names = demo_signals,
      remove_raises = (\<lambda>p. None)\<rparr>"

text \<open>A run in which ffmpeg is ended by the signal 9.\<close>

definition ffmpeg_killed_env :: env where
  "ffmpeg_killed_env =
     \<lparr>downloader = (\<lambda>opts url.
        ([Hook [''status'' \<mapsto> PStr ''finished'', ''filename'' \<mapsto> PStr ''/tmp/out/clip.webm'']], None)),
      spawn = (\<lambda>cmd. if take 1 cmd = [''ffprobe''] then Exited 0 ''video'' [] else Exited (- 9) [] []),
      signal_names = demo_signals,
      remove_raises = (\<lambda>p. None)\<rparr>"

text \<open>
  A downloader without callbacks, as \<open>YtDlpDownloader()\<close> builds it, and one whose
  \<open>on_complete\<close> callback raises.
\<close>

definition no_callbacks_world :: world where
  "no_callbacks_world = \<lparr>callbacks = Map.empty, downloaded_file = PNone, trace = []\<rparr>"

definition raising_world :: world where
  "raising_world =
     \<lparr>callbacks = gui_callbacks(''on_complete'' \<mapsto> (\<lambda>n. Some (Exn OtherException ''window closed''))),
      downloaded_file = PNone, trace = []\<rparr>"

text \<open>A window in which a URL was entered and the format \<open>best\<close> is selected.\<close>

definition demo_gui :: gui where
  "demo_gui =
     \<lparr>url_entry = '' https://example/video '', format_combo = ''best'',
      output_dir_entry = ''/tmp/out'', subtitles_check = False, thumbnail_check = False,
      progress_bar_visible = False, status_label = ''Ready'', message_boxes = [],
      downloader_obj = gui_world\<rparr>"

section \<open>Properties of the option set\<close>

lemma dict_get_set: "dict_get (dict_set k v d) k' = (if k' = k then Some v else dict_get d k')"
  by (induction d) (auto simp: dict_get_def)

lemma get_pp_set_other:
  "k \<noteq> ''postprocessors'' \<Longrightarrow> get_postprocessors (dict_set k v d) = get_postprocessors d"
  by (simp add: get_postprocessors_def dict_get_set)

lemma get_pp_set_pp:
  "get_postprocessors (dict_set ''postprocessors'' (OPostprocessors pps) d) = pps"
  by (simp add: get_postprocessors_def dict_get_set)

lemma opts0_format: "dict_get [(''outtmpl'', a), (''logger'', b), (''progress_hooks'', c), (''quiet'', e)] ''format'' = None"
  by (simp add: dict_get_def)

lemma opts0_pp: "get_postprocessors [(''outtmpl'', a), (''logger'', b), (''progress_hooks'', c), (''quiet'', e)] = []"
  by (simp add: get_postprocessors_def dict_get_def)

lemma dict_get_build_format:
  "dict_get (build_ydl_opts d fmt subs thumb) ''format'' =
     (if fmt = ''mp3'' then Some (OStr ''bestaudio/best'')
      else if fmt = ''mp4'' then Some (OStr ''bestvideo[ext=mp4]+bestaudio[ext=m4a]/best[ext=mp4]/best'')
      else if fmt = ''webm'' then Some (OStr ''bestvideo[ext=webm]+bestaudio[ext=webm]/best[ext=webm]/best'')
      else None)"
  unfolding build_ydl_opts_def Let_def
  by (simp add: dict_get_set opts0_format del: dict_set.simps)

lemma get_postprocessors_build:
  "get_postprocessors (build_ydl_opts d fmt subs thumb) =
     (if fmt = ''mp3'' then [extract_audio_pp] else []) @ (if thumb then [thumbnail_pp] else [])"
  unfolding build_ydl_opts_def Let_def
  by (simp add: get_pp_set_other get_pp_set_pp opts0_pp del: dict_set.simps)

lemma build_plain:
  "build_ydl_opts d fmt False False =
     [(''outtmpl'', OStr (path_join d ''%(title)s.%(ext)s'')), (''logger'', OLogger),
      (''progress_hooks'', OHooks), (''quiet'', OBool True)]
     @ (if fmt = ''mp3'' then
          [(''format'', OStr ''bestaudio/best''),
           (''postprocessors'', OPostprocessors [extract_audio_pp])]
        else if fmt = ''mp4'' then
          [(''format'', OStr ''bestvideo[ext=mp4]+bestaudio[ext=m4a]/best[ext=mp4]/best'')]
        else if fmt = ''webm'' then
          [(''format'', OStr ''bestvideo[ext=webm]+bestaudio[ext=webm]/best[ext=webm]/best'')]
        else [])"
  unfolding build_ydl_opts_def Let_def by simp

lemma build_thumbnail_entries:
  "dict_get (build_ydl_opts d fmt subs True) ''postprocessors'' =
       Some (OPostprocessors (get_postprocessors (build_ydl_opts d fmt subs False) @ [thumbnail_pp]))
   \<and> dict_get (build_ydl_opts d fmt subs True) ''writethumbnail'' = Some (OBool True)"
  unfolding build_ydl_opts_def Let_def
  by (simp add: dict_get_set del: dict_set.simps)

text \<open>
  Claim C7. For each of the four format selections the option set is the one of the table.
  With no subtitles and no thumbnail the whole dict is given: \<open>mp3\<close> has the format
  \<open>bestaudio/best\<close> and the one post-process step \<open>FFmpegExtractAudio\<close> to mp3 at quality
  192; \<open>mp4\<close> and \<open>webm\<close> have their fallback chains and no post-process step; \<open>best\<close> has
  no \<open>format\<close> entry at all. Whatever the subtitle and thumbnail flags are, the \<open>format\<close>
  entry is the same, and without the thumbnail flag so is the post-process list.
\<close>

theorem ydl_opts_format_table:
  "build_ydl_opts d ''mp3'' False False =
     [(''outtmpl'', OStr (path_join d ''%(title)s.%(ext)s'')), (''logger'', OLogger),
      (''progress_hooks'', OHooks), (''quiet'', OBool True),
      (''format'', OStr ''bestaudio/best''),
      (''postprocessors'', OPostprocessors
         [[(''key'', ''FFmpegExtractAudio''), (''preferredcodec'', ''mp3''),
           (''preferredquality'', ''192'')]])]
   \<and> build_ydl_opts d ''mp4'' False False =
     [(''outtmpl'', OStr (path_join d ''%(title)s.%(ext)s'')), (''logger'', OLogger),
      (''progress_hooks'', OHooks), (''quiet'', OBool True),
      (''format'', OStr ''bestvideo[ext=mp4]+bestaudio[ext=m4a]/best[ext=mp4]/best'')]
   \<and> build_ydl_opts d ''webm'' False False =
     [(''outtmpl'', OStr (path_join d ''%(title)s.%(ext)s'')), (''logger'', OLogger),
      (''progress_hooks'', OHooks), (''quiet'', OBool True),
      (''format'', OStr ''bestvideo[ext=webm]+bestaudio[ext=webm]/best[ext=webm]/best'')]
   \<and> build_ydl_opts d ''best'' False False =
     [(''outtmpl'', OStr (path_join d ''%(title)s.%(ext)s'')), (''logger'', OLogger),
      (''progress_hooks'', OHooks), (''quiet'', OBool True)]
   \<and> dict_get (build_ydl_opts d ''mp3'' subs thumb) ''format'' = Some (OStr ''bestaudio/best'')
   \<and> dict_get (build_ydl_opts d ''mp4'' subs thumb) ''format'' =
        Some (OStr ''bestvideo[ext=mp4]+bestaudio[ext=m4a]/best[ext=mp4]/best'')
   \<and> dict_get (build_ydl_opts d ''webm'' subs thumb) ''format'' =
        Some (OStr ''bestvideo[ext=webm]+bestaudio[ext=webm]/best[ext=webm]/best'')
   \<and> dict_get (build_ydl_opts d ''best'' subs thumb) ''format'' = None
   \<and> get_postprocessors (build_ydl_opts d ''mp3'' subs False) =
        [[(''key'', ''FFmpegExtractAudio''), (''preferredcodec'', ''mp3''),
          (''preferredquality'', ''192'')]]
   \<and> get_postprocessors (build_ydl_opts d ''mp4'' subs False) = []
   \<and> get_postprocessors (build_ydl_opts d ''webm'' subs False) = []
   \<and> get_postprocessors (build_ydl_opts d ''best'' subs False) = []"
  by (simp add: build_plain dict_get_build_format get_postprocessors_build extract_audio_pp_def)

text \<open>
  Claim C8. With the thumbnail flag the post-process list is the list without the flag
  followed by the step \<open>FFmpegThumbnailsConvertor\<close> to jpg; it is stored under
  \<open>postprocessors\<close>, and \<open>writethumbnail\<close> is set. For \<open>mp3\<close> the list is the audio
  extraction and then the thumbnail conversion, in this order.
\<close>

theorem thumbnail_step_appended:
  "get_postprocessors (build_ydl_opts d fmt subs True) =
     get_postprocessors (build_ydl_opts d fmt subs False)
       @ [[(''key'', ''FFmpegThumbnailsConvertor''), (''format'', ''jpg'')]]
   \<and> dict_get (build_ydl_opts d fmt subs True) ''postprocessors'' =
       Some (OPostprocessors (get_postprocessors (build_ydl_opts d fmt subs True)))
   \<and> dict_get (build_ydl_opts d fmt subs True) ''writethumbnail'' = Some (OBool True)
   \<and> get_postprocessors (build_ydl_opts d ''mp3'' subs True) =
       [[(''key'', ''FFmpegExtractAudio''), (''preferredcodec'', ''mp3''),
         (''preferredquality'', ''192'')],
        [(''key'', ''FFmpegThumbnailsConvertor''), (''format'', ''jpg'')]]"
  by (simp add: build_thumbnail_entries get_postprocessors_build extract_audio_pp_def thumbnail_pp_def)

section \<open>Properties of the logger\<close>

lemma startswith_prefix: "startswith msg pre = prefix pre msg"
proof
  assume "startswith msg pre"
  then have "msg = pre @ drop (length pre) msg"
    unfolding startswith_def by (metis append_take_drop_id)
  then show "prefix pre msg" by (metis prefixI)
next
  assume "prefix pre msg"
  then show "startswith msg pre" by (auto simp: startswith_def prefix_def)
qed

text \<open>
  Claim C9. With a log callback registered: a debug line that begins with the marker
  \<open>[debug] \<close> leaves the state as it is and calls nothing; a debug line without the marker is
  handled as an info line, which is passed to the log callback as it is; a warning line is
  passed on with \<open>Warning: \<close> before it and an error line with \<open>Error: \<close> before it.
\<close>

theorem logger_forwarding:
  assumes "callbacks s ''log_message'' = Some cb"
  shows "logger_debug msg s =
           (if prefix ''[debug] '' msg then (None, s)
            else (cb (LogMessage msg), s\<lparr>trace := trace s @ [Notify (LogMessage msg)]\<rparr>))
       \<and> logger_debug msg s = (if prefix ''[debug] '' msg then (None, s) else logger_info msg s)
       \<and> logger_info msg s = (cb (LogMessage msg), s\<lparr>trace := trace s @ [Notify (LogMessage msg)]\<rparr>)
       \<and> logger_warning msg s =
           (cb (LogMessage (''Warning: '' @ msg)),
            s\<lparr>trace := trace s @ [Notify (LogMessage (''Warning: '' @ msg))]\<rparr>)
       \<and> logger_error msg s =
           (cb (LogMessage (''Error: '' @ msg)),
            s\<lparr>trace := trace s @ [Notify (LogMessage (''Error: '' @ msg))]\<rparr>)"
  using assms
  by (simp add: logger_debug_def logger_info_def logger_warning_def logger_error_def
      log_message_def call_callback_def startswith_prefix)

theorem logger_forwarding_witness:
  "callbacks \<lparr>callbacks = gui_callbacks, downloaded_file = PNone, trace = []\<rparr> ''log_message''
     = Some (\<lambda>n. None)
   \<and> trace (snd (logger_debug ''[debug] Command-line config''
        \<lparr>callbacks = gui_callbacks, downloaded_file = PNone, trace = []\<rparr>)) = []
   \<and> trace (snd (logger_debug ''[youtube] Extracting URL''
        \<lparr>callbacks = gui_callbacks, downloaded_file = PNone, trace = []\<rparr>))
       = [Notify (LogMessage ''[youtube] Extracting URL'')]
   \<and> trace (snd (logger_warning ''slow''
        \<lparr>callbacks = gui_callbacks, downloaded_file = PNone, trace = []\<rparr>))
       = [Notify (LogMessage ''Warning: slow'')]
   \<and> trace (snd (logger_error ''gone''
        \<lparr>callbacks = gui_callbacks, downloaded_file = PNone, trace = []\<rparr>))
       = [Notify (LogMessage ''Error: gone'')]"
proof -
  let ?s = "\<lparr>callbacks = gui_callbacks, downloaded_file = PNone, trace = []\<rparr>"
  have h: "callbacks ?s ''log_message'' = Some (\<lambda>n. None)"
    by (simp add: gui_callbacks_def)
  show ?thesis
    using h logger_forwarding [OF h, of "''[debug] Command-line config''"]
      logger_forwarding [OF h, of "''[youtube] Extracting URL''"]
      logger_forwarding [OF h, of "''slow''"] logger_forwarding [OF h, of "''gone''"]
    by simp
qed

section \<open>The history of a request\<close>

lemma grows_refl: "grows P s s"
  by (simp add: grows_def)

lemma grows_trans: "grows P s s' \<Longrightarrow> grows P s' s'' \<Longrightarrow> grows P s s''"
  by (auto simp: grows_def)

lemma grows_mono: "grows P s s' \<Longrightarrow> (\<And>e. P e \<Longrightarrow> Q e) \<Longrightarrow> grows Q s s'"
  unfolding grows_def using list.pred_mono_strong by blast

lemma grows_df: "grows P s s' \<Longrightarrow> grows P (s\<lparr>downloaded_file := v\<rparr>) s'"
  by (simp add: grows_def)

lemma grows_append: "P e \<Longrightarrow> grows P s (s\<lparr>trace := trace s @ [e]\<rparr>)"
  by (simp add: grows_def)

lemma call_callback_grows:
  "call_callback name n s = (r, s') \<Longrightarrow> P (Notify n) \<Longrightarrow> grows P s s'"
  by (auto simp: call_callback_def grows_def split: option.splits)

lemma and_then_cases:
  "and_then x k = (r, s'') \<Longrightarrow>
     (\<exists>e. x = (Some e, s'') \<and> r = Some e) \<or> (\<exists>s'. x = (None, s') \<and> k s' = (r, s''))"
  by (auto simp: and_then_def split: prod.splits option.splits)

lemma grows_df2: "grows P (s\<lparr>downloaded_file := v\<rparr>) s' \<Longrightarrow> grows P s s'"
  by (simp add: grows_def)

lemma grows_df3: "grows P s (s\<lparr>downloaded_file := v\<rparr>)"
  by (simp add: grows_def)

lemma log_message_grows:
  "log_message m s = (r, s') \<Longrightarrow> P (Notify (LogMessage m)) \<Longrightarrow> grows P s s'"
  unfolding log_message_def by (rule call_callback_grows)

lemma update_progress_grows:
  "update_progress st data s = (r, s') \<Longrightarrow> P (Notify (UpdateProgress st data)) \<Longrightarrow> grows P s s'"
  unfolding update_progress_def by (rule call_callback_grows)

lemma on_complete_grows:
  "on_complete s = (r, s') \<Longrightarrow> P (Notify OnComplete) \<Longrightarrow> grows P s s'"
  unfolding on_complete_def by (rule call_callback_grows)

lemma on_error_grows:
  "on_error m s = (r, s') \<Longrightarrow> P (Notify (OnError m)) \<Longrightarrow> grows P s s'"
  unfolding on_error_def by (rule call_callback_grows)

lemma and_then_grows:
  assumes "and_then x k = (r, s'')"
    and "\<And>r' s'. x = (r', s') \<Longrightarrow> grows P s s'"
    and "\<And>s'. x = (None, s') \<Longrightarrow> k s' = (r, s'') \<Longrightarrow> grows P s' s''"
  shows "grows P s s''"
  using and_then_cases [OF assms(1)] assms(2,3) by (blast intro: grows_trans)

lemma progress_hook_grows:
  assumes "progress_hook d s = (r, s')"
  shows "grows is_hook_event s s'"
proof (cases "d ''status''")
  case None
  with assms show ?thesis by (simp add: progress_hook_def grows_refl)
next
  case (Some st)
  consider (dl) "st = PStr ''downloading''" | (fin) "st = PStr ''finished''"
    | (other) "st \<noteq> PStr ''downloading''" "st \<noteq> PStr ''finished''" by blast
  then show ?thesis
  proof cases
    case dl
    with assms Some show ?thesis
      by (auto simp: progress_hook_def Let_def split: prod.splits
          intro: update_progress_grows)
  next
    case fin
    let ?f = "payload_get d ''filename'' ''Unknown''"
    let ?s1 = "s\<lparr>downloaded_file := ?f\<rparr>"
    show ?thesis
    proof (cases "fspath ?f")
      case (Inl e)
      with assms Some fin show ?thesis
        by (auto simp: progress_hook_def Let_def grows_df3)
    next
      case (Inr p)
      with assms Some fin have
        "and_then (log_message (''Download finished: '' @ basename p) ?s1)
           (update_progress ''processing'' None) = (r, s')"
        by (simp add: progress_hook_def Let_def)
      then have "grows is_hook_event ?s1 s'"
        by (rule and_then_grows) (auto intro: log_message_grows update_progress_grows)
      then show ?thesis by (rule grows_df2)
    qed
  next
    case other
    with assms Some show ?thesis by (simp add: progress_hook_def grows_refl)
  qed
qed

lemma do_action_grows:
  "do_action a s = (r, s') \<Longrightarrow> grows is_hook_event s s'"
  by (cases a)
     (auto simp: logger_debug_def logger_info_def logger_warning_def logger_error_def grows_refl
        split: if_splits intro: progress_hook_grows log_message_grows)

lemma run_actions_grows:
  "run_actions acts s = (r, s') \<Longrightarrow> grows is_hook_event s s'"
proof (induction acts arbitrary: s)
  case Nil
  then show ?case by (simp add: grows_refl)
next
  case (Cons a acts)
  from Cons.prems have "and_then (do_action a s) (run_actions acts) = (r, s')" by simp
  then show ?case
    by (rule and_then_grows) (auto intro: do_action_grows Cons.IH)
qed

lemma hook_nonterminal: "is_hook_event e \<Longrightarrow> not_terminal e"
  by (cases e rule: is_hook_event.cases) auto

lemma hook_not_transcode: "is_hook_event e \<Longrightarrow> \<not> is_transcode_event e"
  by (cases e rule: is_hook_event.cases) auto

lemma ydl_download_trace:
  assumes "ydl_download E opts url s = (r, s')"
  shows "callbacks s' = callbacks s \<and>
         (\<exists>evs. trace s' = trace s @ [YdlCall opts url] @ evs
                    @ [case r of None \<Rightarrow> YdlReturn | Some e \<Rightarrow> YdlRaise e]
                \<and> list_all is_hook_event evs)"
proof -
  obtain acts fin where d: "downloader E opts url = (acts, fin)" by (cases "downloader E opts url")
  let ?s0 = "s\<lparr>trace := trace s @ [YdlCall opts url]\<rparr>"
  obtain r1 s1 where ra: "run_actions acts ?s0 = (r1, s1)" by (cases "run_actions acts ?s0")
  from run_actions_grows [OF ra] obtain evs where
    g: "callbacks s1 = callbacks s" "trace s1 = trace s @ [YdlCall opts url] @ evs"
       "list_all is_hook_event evs"
    by (auto simp: grows_def)
  from assms d ra g show ?thesis
    by (auto simp: ydl_download_def split: option.splits)
qed

lemma call_callback_quiet:
  assumes "\<forall>name cb n. callbacks s name = Some cb \<longrightarrow> cb n = None"
    and "call_callback name n s = (r, s')"
  shows "r = None"
  using assms by (auto simp: call_callback_def split: option.splits)

lemma call_callback_registered:
  assumes "callbacks s name = Some cb"
  shows "call_callback name n s = (cb n, s\<lparr>trace := trace s @ [Notify n]\<rparr>)"
  using assms by (simp add: call_callback_def)

lemma fetch_quiet:
  assumes q: "\<forall>name cb n. callbacks s name = Some cb \<longrightarrow> cb n = None"
    and f: "download_video_fetch E url opts s = (r, s')"
  shows "callbacks s' = callbacks s \<and>
         (\<exists>evs. trace s' = trace s @ evs \<and> list_all not_terminal evs
                \<and> YdlCall opts url \<in> set evs
                \<and> (case r of None \<Rightarrow> YdlReturn | Some e \<Rightarrow> YdlRaise e) \<in> set evs)"
proof -
  obtain r1 s1 where l: "log_message (''Starting download of '' @ url) s = (r1, s1)"
    by (cases "log_message (''Starting download of '' @ url) s")
  from l have r1: "r1 = None"
    unfolding log_message_def by (rule call_callback_quiet [OF q])
  from log_message_grows [OF l, of not_terminal] obtain evs1 where
    g1: "callbacks s1 = callbacks s" "trace s1 = trace s @ evs1" "list_all not_terminal evs1"
    by (auto simp: grows_def)
  from f l r1 have y: "ydl_download E opts url (s1\<lparr>downloaded_file := PNone\<rparr>) = (r, s')"
    by (simp add: download_video_fetch_def and_then_def)
  from ydl_download_trace [OF y] obtain evs where
    g2: "callbacks s' = callbacks s1"
        "trace s' = trace s1 @ [YdlCall opts url] @ evs
           @ [case r of None \<Rightarrow> YdlReturn | Some e \<Rightarrow> YdlRaise e]"
        "list_all is_hook_event evs"
    by auto
  have "list_all not_terminal evs"
    using g2(3) by (auto simp: list_all_iff dest: hook_nonterminal)
  with g1 g2 show ?thesis
    by (auto split: option.splits)
qed

lemma subprocess_run_state:
  "subprocess_run E cmd check s = (r, s') \<Longrightarrow> s' = s\<lparr>trace := trace s @ [Run cmd]\<rparr>"
  by (auto simp: subprocess_run_def Let_def split: proc_result.splits if_splits)

lemma subprocess_run_grows:
  "subprocess_run E cmd check s = (r, s') \<Longrightarrow> grows not_terminal s s'"
  by (auto dest!: subprocess_run_state simp: grows_def)

lemma os_remove_grows: "os_remove E p s = (r, s') \<Longrightarrow> grows not_terminal s s'"
  by (auto simp: os_remove_def grows_def)

lemma time_sleep_grows: "grows not_terminal s (time_sleep n s)"
  by (simp add: time_sleep_def grows_def)

lemma convert_try_grows:
  assumes "convert_try E src mp4_file s = (r, s')"
  shows "grows not_terminal s s'"
proof -
  obtain r1 s1 where p: "subprocess_run E (ffprobe_cmd src) False s = (r1, s1)"
    by (cases "subprocess_run E (ffprobe_cmd src) False s")
  note g1 = subprocess_run_grows [OF p]
  show ?thesis
  proof (cases r1)
    case (Inl e)
    with assms p g1 show ?thesis by (simp add: convert_try_def)
  next
    case (Inr out)
    let ?cmd = "if strip_with bytes_space out \<noteq> [] then ffmpeg_video_cmd src mp4_file
                else ffmpeg_audio_cmd src mp4_file"
    obtain r2 s2 where c: "subprocess_run E ?cmd True s1 = (r2, s2)"
      by (cases "subprocess_run E ?cmd True s1")
    note g2 = grows_trans [OF g1 subprocess_run_grows [OF c]]
    show ?thesis
    proof (cases r2)
      case (Inl e)
      with assms p Inr c g2 show ?thesis by (simp add: convert_try_def Let_def)
    next
      case (Inr out2)
      with assms p \<open>r1 = Inr out\<close> c have
        "and_then (os_remove E src s2) (log_message (''Converted to mp4: '' @ basename mp4_file))
           = (r, s')"
        by (simp add: convert_try_def Let_def)
      then have "grows not_terminal s2 s'"
        by (rule and_then_grows) (auto intro: os_remove_grows log_message_grows)
      with g2 show ?thesis by (rule grows_trans)
    qed
  qed
qed

lemma grows_callbacks: "grows P s s' \<Longrightarrow> callbacks s' = callbacks s"
  by (simp add: grows_def)

lemma convert_step_quiet:
  assumes q: "\<forall>name cb n. callbacks s name = Some cb \<longrightarrow> cb n = None"
    and reg: "callbacks s ''on_error'' = Some ecb"
    and c: "convert_step E s = (fl, s')"
  shows "callbacks s' = callbacks s \<and>
         (\<exists>evs. list_all not_terminal evs \<and>
            trace s' = trace s @ evs @
              (case fl of Returned \<Rightarrow>
                 [Notify (OnError (''ffmpeg conversion failed: '' @
                    (case fst (convert_try E (case fspath (downloaded_file s) of Inr p \<Rightarrow> p | Inl e \<Rightarrow> [])
                           (fst (splitext (case fspath (downloaded_file s) of Inr p \<Rightarrow> p | Inl e \<Rightarrow> [])) @ ''.mp4'')
                           (time_sleep 2 s)) of Some e \<Rightarrow> py_str e | None \<Rightarrow> [])))]
               | _ \<Rightarrow> []))"
proof -
  let ?s1 = "time_sleep 2 s"
  have g1: "grows not_terminal s ?s1" by (rule time_sleep_grows)
  have df: "downloaded_file ?s1 = downloaded_file s" by (simp add: time_sleep_def)
  show ?thesis
  proof (cases "fspath (downloaded_file s)")
    case (Inl e)
    with c df have "fl = Raised e" "s' = ?s1" by (auto simp: convert_step_def Let_def)
    with g1 show ?thesis by (auto simp: grows_def)
  next
    case (Inr src)
    obtain base ext where sp: "splitext src = (base, ext)" by (cases "splitext src")
    show ?thesis
    proof (cases "lower ext \<noteq> ''.mp4''")
      case False
      with c df Inr sp have "fl = Proceed" "s' = ?s1" by (auto simp: convert_step_def Let_def)
      with g1 show ?thesis by (auto simp: grows_def)
    next
      case True
      obtain r2 s2 where t: "convert_try E src (base @ ''.mp4'') ?s1 = (r2, s2)"
        by (cases "convert_try E src (base @ ''.mp4'') ?s1")
      note g2 = grows_trans [OF g1 convert_try_grows [OF t]]
      show ?thesis
      proof (cases r2)
        case None
        with c df Inr sp True t have "fl = Proceed" "s' = s2"
          by (auto simp: convert_step_def Let_def)
        with g2 show ?thesis by (auto simp: grows_def)
      next
        case (Some e)
        show ?thesis
        proof (cases "is_SubprocessError e")
          case False
          with c df Inr sp True t Some have "fl = Raised e" "s' = s2"
            by (auto simp: convert_step_def Let_def)
          with g2 show ?thesis by (auto simp: grows_def)
        next
          case sub: True
          let ?m = "''ffmpeg conversion failed: '' @ py_str e"
          have cb2: "callbacks s2 = callbacks s" using g2 by (rule grows_callbacks)
          have oe: "on_error ?m s2 = (ecb (OnError ?m), s2\<lparr>trace := trace s2 @ [Notify (OnError ?m)]\<rparr>)"
            unfolding on_error_def using reg cb2 by (simp add: call_callback_registered)
          moreover have "ecb (OnError ?m) = None" using q reg by blast
          ultimately have "fl = Returned" "s' = s2\<lparr>trace := trace s2 @ [Notify (OnError ?m)]\<rparr>"
            using c df Inr sp True t Some sub by (auto simp: convert_step_def Let_def)
          with g2 Inr sp t Some show ?thesis by (auto simp: grows_def)
        qed
      qed
    qed
  qed
qed

lemma gui_callbacks_quiet: "\<forall>name cb n. gui_callbacks name = Some cb \<longrightarrow> cb n = None"
  by (auto simp: gui_callbacks_def split: if_splits)

text \<open>
  Claim C1, as stated, fails. The notifier methods call a callback only if one is
  registered, so a downloader built without callbacks notifies no terminal outcome; and
  \<open>self.on_complete()\<close> is called inside the outer \<open>try\<close>, so when the \<open>on_complete\<close> callback
  raises, \<open>on_error\<close> is called as well and the request has two terminal notifications.
\<close>

theorem terminal_outcome_counterexample:
  "filter is_notify_terminal
     (trace (snd (download_video demo_env ''https://example/video'' ''/tmp/out'' ''mp4''
                    False False False no_callbacks_world))) = []
   \<and> filter is_notify_terminal
     (trace (snd (download_video demo_env ''https://example/video'' ''/tmp/out'' ''mp4''
                    False False False raising_world)))
     = [Notify OnComplete, Notify (OnError ''window closed'')]"
  by code_simp

text \<open>
  Claim C1, amended. Let every callback return normally, and let \<open>on_complete\<close> and
  \<open>on_error\<close> be registered (as the window does). Then \<open>download_video\<close> returns normally,
  and the events it adds to the history end with the notification of one terminal outcome
  (\<open>on_complete\<close> or \<open>on_error\<close>); no event before it is a terminal notification; the call
  of the External Downloader and its return (or its exception) are among the events before
  it, as is whatever the conversion block did, and no event at all comes after it.
\<close>

theorem exactly_one_terminal_outcome:
  assumes q: "\<forall>name cb n. callbacks s name = Some cb \<longrightarrow> cb n = None"
    and regc: "callbacks s ''on_complete'' = Some ccb"
    and rege: "callbacks s ''on_error'' = Some ecb"
    and dv: "download_video E url output_dir selected_format with_subtitles with_thumbnail
               convert_to_mp4 s = (r, s')"
  shows "r = None \<and>
         (\<exists>pre t. trace s' = trace s @ pre @ [Notify t] \<and> is_terminal t
            \<and> filter is_notify_terminal pre = []
            \<and> YdlCall (build_ydl_opts output_dir selected_format with_subtitles with_thumbnail) url
                 \<in> set pre
            \<and> (YdlReturn \<in> set pre \<or> (\<exists>e. YdlRaise e \<in> set pre)))"
proof -
  let ?opts = "build_ydl_opts output_dir selected_format with_subtitles with_thumbnail"
  obtain r3 s3 where f: "download_video_fetch E url ?opts s = (r3, s3)"
    by (cases "download_video_fetch E url ?opts s")
  from fetch_quiet [OF q f] obtain evs3 where
    g3: "callbacks s3 = callbacks s" "trace s3 = trace s @ evs3" "list_all not_terminal evs3"
        "YdlCall ?opts url \<in> set evs3"
        "(case r3 of None \<Rightarrow> YdlReturn | Some e \<Rightarrow> YdlRaise e) \<in> set evs3"
    by blast
  have ret: "YdlReturn \<in> set evs3 \<or> (\<exists>e. YdlRaise e \<in> set evs3)"
    using g3(5) by (cases r3) auto
  have err: "\<And>m s4. callbacks s4 = callbacks s \<Longrightarrow>
               on_error m s4 = (None, s4\<lparr>trace := trace s4 @ [Notify (OnError m)]\<rparr>)"
    using q rege unfolding on_error_def by (simp add: call_callback_registered)
  have comp: "\<And>s4. callbacks s4 = callbacks s \<Longrightarrow>
               on_complete s4 = (None, s4\<lparr>trace := trace s4 @ [Notify OnComplete]\<rparr>)"
    using q regc unfolding on_complete_def by (simp add: call_callback_registered)
  have nt: "filter is_notify_terminal evs3 = []"
    using g3(3) by (simp add: filter_empty_conv list_all_iff)
  show ?thesis
  proof (cases r3)
    case (Some e)
    with dv f have "on_error (py_str e) s3 = (r, s')"
      by (simp add: download_video_def download_video_try_def and_then_def)
    with err [OF g3(1)] have "r = None" "trace s' = trace s3 @ [Notify (OnError (py_str e))]"
      by auto
    with g3 nt ret show ?thesis by auto
  next
    case None
    show ?thesis
    proof (cases "selected_format = ''best'' \<and> convert_to_mp4 \<and> py_truthy (downloaded_file s3)")
      case False
      with f None have "download_video_try E url ?opts selected_format convert_to_mp4 s
          = on_complete s3"
        by (auto simp: download_video_try_def and_then_def)
      with dv comp [OF g3(1)] have "r = None" "trace s' = trace s3 @ [Notify OnComplete]"
        by (auto simp: download_video_def)
      with g3 nt ret show ?thesis by auto
    next
      case True
      obtain fl s4 where c: "convert_step E s3 = (fl, s4)" by (cases "convert_step E s3")
      have q3: "\<forall>name cb n. callbacks s3 name = Some cb \<longrightarrow> cb n = None"
        using q g3(1) by simp
      have rege3: "callbacks s3 ''on_error'' = Some ecb" using rege g3(1) by simp
      from convert_step_quiet [OF q3 rege3 c] obtain evs4 tl where
        g4: "callbacks s4 = callbacks s3" "list_all not_terminal evs4"
            "trace s4 = trace s3 @ evs4 @ tl"
            "tl = (case fl of Returned \<Rightarrow>
                 [Notify (OnError (''ffmpeg conversion failed: '' @
                    (case fst (convert_try E (case fspath (downloaded_file s3) of Inr p \<Rightarrow> p | Inl e \<Rightarrow> [])
                           (fst (splitext (case fspath (downloaded_file s3) of Inr p \<Rightarrow> p | Inl e \<Rightarrow> [])) @ ''.mp4'')
                           (time_sleep 2 s3)) of Some e \<Rightarrow> py_str e | None \<Rightarrow> [])))]
               | _ \<Rightarrow> [])"
        by blast
      have nt4: "filter is_notify_terminal evs4 = []"
        using g4(2) by (simp add: filter_empty_conv list_all_iff)
      have cb4: "callbacks s4 = callbacks s" using g4(1) g3(1) by simp
      from f None True c have tr:
        "download_video_try E url ?opts selected_format convert_to_mp4 s =
           (case fl of Raised e \<Rightarrow> (Some e, s4) | Returned \<Rightarrow> (None, s4)
            | Proceed \<Rightarrow> on_complete s4)"
        by (auto simp: download_video_try_def and_then_def split: flow.splits)
      show ?thesis
      proof (cases fl)
        case Proceed
        with dv tr comp [OF cb4] have "r = None" "trace s' = trace s4 @ [Notify OnComplete]"
          by (auto simp: download_video_def)
        with g3 g4 nt nt4 ret Proceed show ?thesis by auto
      next
        case Returned
        with dv tr have "r = None" "s' = s4" by (auto simp: download_video_def)
        with g3 g4 nt nt4 ret Returned show ?thesis by auto
      next
        case (Raised e)
        with dv tr err [OF cb4] have "r = None" "trace s' = trace s4 @ [Notify (OnError (py_str e))]"
          by (auto simp: download_video_def)
        with g3 g4 nt nt4 ret Raised show ?thesis by auto
      qed
    qed
  qed
qed

theorem exactly_one_terminal_outcome_witness:
  "fst (download_video demo_env ''https://example/video'' ''/tmp/out'' ''best'' False False True
          gui_world) = None
   \<and> (\<exists>pre t. trace (snd (download_video demo_env ''https://example/video'' ''/tmp/out'' ''best''
                            False False True gui_world))
                 = trace gui_world @ pre @ [Notify t]
          \<and> is_terminal t \<and> filter is_notify_terminal pre = []
          \<and> YdlCall (build_ydl_opts ''/tmp/out'' ''best'' False False) ''https://example/video''
               \<in> set pre
          \<and> (YdlReturn \<in> set pre \<or> (\<exists>e. YdlRaise e \<in> set pre)))"
proof -
  have q: "\<forall>name cb n. callbacks gui_world name = Some cb \<longrightarrow> cb n = None"
    using gui_callbacks_quiet by (simp add: gui_world_def)
  have c: "callbacks gui_world ''on_complete'' = Some (\<lambda>n. None)"
    by (simp add: gui_world_def gui_callbacks_def)
  have e: "callbacks gui_world ''on_error'' = Some (\<lambda>n. None)"
    by (simp add: gui_world_def gui_callbacks_def)
  show ?thesis
    by (rule exactly_one_terminal_outcome [OF q c e surjective_pairing])
qed

section \<open>Properties of the progress hook\<close>

lemma basename_eq: "basename p = rev (takeWhile (\<lambda>x. x \<noteq> CHR ''/'') (rev p))"
proof (cases "CHR ''/'' \<in> set p")
  case False
  then have tw: "takeWhile (\<lambda>x. x \<noteq> CHR ''/'') (rev p) = rev p"
    by auto
  from False have "basename p = p" by (simp add: basename_def rfind_def)
  with tw show ?thesis by (metis rev_rev_ident)
next
  case True
  let ?t = "takeWhile (\<lambda>x. x \<noteq> CHR ''/'') (rev p)"
  have le: "length ?t \<le> length p"
    using length_takeWhile_le [of "\<lambda>x. x \<noteq> CHR ''/''" "rev p"] by simp
  have "?t = take (length ?t) (rev p)" by (rule takeWhile_eq_take)
  then have "rev ?t = drop (length p - length ?t) p"
    by (metis rev_take rev_rev_ident length_rev)
  moreover from True le have "nat (rfind CHR ''/'' p + 1) = length p - length ?t"
    by (simp add: rfind_def)
  ultimately show ?thesis by (simp add: basename_def)
qed

lemma basename_no_sep: "CHR ''/'' \<notin> set (basename p)"
  by (auto simp: basename_eq dest: set_takeWhileD)

lemma basename_split: "basename p = p \<or> (\<exists>dir. p = dir @ ''/'' @ basename p)"
proof -
  let ?P = "\<lambda>x. x \<noteq> CHR ''/''"
  have id: "rev p = takeWhile ?P (rev p) @ dropWhile ?P (rev p)" by simp
  show ?thesis
  proof (cases "dropWhile ?P (rev p)")
    case Nil
    with id have "takeWhile ?P (rev p) = rev p" by simp
    then have "basename p = p" unfolding basename_eq by (metis rev_rev_ident)
    then show ?thesis by blast
  next
    case (Cons x xs)
    then have "x = CHR ''/''" using hd_dropWhile [of ?P "rev p"] by auto
    with id Cons have "rev p = takeWhile ?P (rev p) @ CHR ''/'' # xs" by simp
    then have "p = rev xs @ ''/'' @ rev (takeWhile ?P (rev p))"
      by (metis append_Cons append_Nil append_assoc rev.simps(2) rev_append rev_rev_ident)
    then show ?thesis by (auto simp: basename_eq)
  qed
qed

text \<open>
  Claim C2, as stated, fails: for a payload with the status \<open>finished\<close> the hook records
  the path and emits the log line, but the progress notification it emits has the status
  \<open>processing\<close> and no data; no notification with the status \<open>finished\<close> is emitted.
\<close>

theorem finished_payload_counterexample:
  "fst (progress_hook [''status'' \<mapsto> PStr ''finished'', ''filename'' \<mapsto> PStr ''/tmp/out/clip.webm'']
          gui_world) = None
   \<and> downloaded_file (snd (progress_hook
          [''status'' \<mapsto> PStr ''finished'', ''filename'' \<mapsto> PStr ''/tmp/out/clip.webm''] gui_world))
       = PStr ''/tmp/out/clip.webm''
   \<and> trace (snd (progress_hook
          [''status'' \<mapsto> PStr ''finished'', ''filename'' \<mapsto> PStr ''/tmp/out/clip.webm''] gui_world))
       = [Notify (LogMessage ''Download finished: clip.webm''),
          Notify (UpdateProgress ''processing'' None)]
   \<and> filter is_finished_event (trace (snd (progress_hook
          [''status'' \<mapsto> PStr ''finished'', ''filename'' \<mapsto> PStr ''/tmp/out/clip.webm''] gui_world)))
       = []"
  by code_simp

text \<open>
  Claim C2, amended. For a payload with the status \<open>finished\<close> whose file name is a
  string \<open>f\<close> (the string \<open>Unknown\<close> when the payload has none), with the log and progress
  callbacks registered and the log callback returning normally: the hook records \<open>f\<close> in
  \<open>downloaded_file\<close>, emits the log line \<open>Download finished: \<close> followed by the base name
  of \<open>f\<close>, and then emits the progress notification with the status \<open>processing\<close> and no
  data. The base name has no \<open>/\<close> and is what follows the last \<open>/\<close> of \<open>f\<close>.
\<close>

theorem finished_payload_recorded:
  assumes "d ''status'' = Some (PStr ''finished'')"
    and "payload_get d ''filename'' ''Unknown'' = PStr f"
    and "callbacks s ''log_message'' = Some lcb"
    and "lcb (LogMessage (''Download finished: '' @ basename f)) = None"
    and "callbacks s ''update_progress'' = Some ucb"
  shows "progress_hook d s =
           (ucb (UpdateProgress ''processing'' None),
            s\<lparr>downloaded_file := PStr f,
              trace := trace s @ [Notify (LogMessage (''Download finished: '' @ basename f)),
                                  Notify (UpdateProgress ''processing'' None)]\<rparr>)
       \<and> CHR ''/'' \<notin> set (basename f)
       \<and> (basename f = f \<or> (\<exists>dir. f = dir @ ''/'' @ basename f))"
  using assms basename_split [of f]
  by (simp add: progress_hook_def Let_def log_message_def update_progress_def
      call_callback_def and_then_def basename_no_sep)

theorem finished_payload_recorded_witness:
  "progress_hook [''status'' \<mapsto> PStr ''finished'', ''filename'' \<mapsto> PStr ''/tmp/out/clip.webm'']
     gui_world =
     (None, gui_world\<lparr>downloaded_file := PStr ''/tmp/out/clip.webm'',
        trace := trace gui_world @ [Notify (LogMessage (''Download finished: '' @ basename ''/tmp/out/clip.webm'')),
                                  Notify (UpdateProgress ''processing'' None)]\<rparr>)
   \<and> basename ''/tmp/out/clip.webm'' = ''clip.webm''"
proof -
  let ?d = "[''status'' \<mapsto> PStr ''finished'', ''filename'' \<mapsto> PStr ''/tmp/out/clip.webm'']"
  have 1: "?d ''status'' = Some (PStr ''finished'')" by simp
  have 2: "payload_get ?d ''filename'' ''Unknown'' = PStr ''/tmp/out/clip.webm''"
    by (simp add: payload_get_def)
  have 3: "callbacks gui_world ''log_message'' = Some (\<lambda>n. None)"
    by (simp add: gui_world_def gui_callbacks_def)
  have 4: "(\<lambda>n. None) (LogMessage (''Download finished: '' @ basename ''/tmp/out/clip.webm'')) = (None :: exn option)"
    by simp
  have 5: "callbacks gui_world ''update_progress'' = Some (\<lambda>n. None)"
    by (simp add: gui_world_def gui_callbacks_def)
  have b: "basename ''/tmp/out/clip.webm'' = ''clip.webm''" by code_simp
  from finished_payload_recorded [OF 1 2 3 4 5] b show ?thesis by simp
qed

text \<open>
  Claim C3, as stated, fails: \<open>d['status']\<close> is read outside the \<open>try\<close>, so a payload
  without a \<open>status\<close> entry makes the hook raise \<open>KeyError\<close>; the \<open>finished\<close> branch has no
  handler, so a file name that is no string makes \<open>os.path.basename\<close> raise \<open>TypeError\<close>. The
  exception ends the download call, and the request ends with the Failure \<open>'status'\<close>.
\<close>

theorem progress_hook_raises_counterexample:
  "fst (progress_hook [''_percent_str'' \<mapsto> PStr '' 50.0%''] gui_world)
     = Some (Exn KeyError ([CHR 0x27] @ ''status'' @ [CHR 0x27]))
   \<and> fst (progress_hook [''status'' \<mapsto> PStr ''finished'', ''filename'' \<mapsto> PNone] gui_world)
     = Some (Exn TypeError ''expected str, bytes or os.PathLike object, not NoneType'')
   \<and> trace (snd (download_video no_status_env ''https://example/video'' ''/tmp/out'' ''mp4''
                    False False False gui_world))
     = [Notify (LogMessage ''Starting download of https://example/video''),
        YdlCall [(''outtmpl'', OStr ''/tmp/out/%(title)s.%(ext)s''), (''logger'', OLogger),
                 (''progress_hooks'', OHooks), (''quiet'', OBool True),
                 (''format'', OStr ''bestvideo[ext=mp4]+bestaudio[ext=m4a]/best[ext=mp4]/best'')]
          ''https://example/video'',
        YdlRaise (Exn KeyError ([CHR 0x27] @ ''status'' @ [CHR 0x27])),
        Notify (OnError ([CHR 0x27] @ ''status'' @ [CHR 0x27]))]"
  by code_simp

text \<open>
  Claim C3, amended. For a payload that has a status other than \<open>finished\<close> the hook
  never raises. With the status \<open>downloading\<close> it calls the progress callback (if one is
  registered) with the percent, speed and ETA fields of the payload, each replaced by the
  string \<open>N/A\<close> when it is missing, and whatever the callback does, also raising, the hook
  returns normally; with any other status it does nothing. The download goes on with the
  actions that follow.
\<close>

theorem progress_hook_downloading:
  assumes "d ''status'' = Some st" and "st \<noteq> PStr ''finished''"
  shows "fst (progress_hook d s) = None
       \<and> snd (progress_hook d s) =
           (if st = PStr ''downloading'' then
              s\<lparr>trace := trace s @
                 (case callbacks s ''update_progress'' of
                    None \<Rightarrow> []
                  | Some cb \<Rightarrow>
                      [Notify (UpdateProgress ''downloading''
                         (Some \<lparr>percent = (case d ''_percent_str'' of None \<Rightarrow> PStr ''N/A'' | Some v \<Rightarrow> v),
                                speed = (case d ''_speed_str'' of None \<Rightarrow> PStr ''N/A'' | Some v \<Rightarrow> v),
                                eta = (case d ''_eta_str'' of None \<Rightarrow> PStr ''N/A'' | Some v \<Rightarrow> v)\<rparr>))])\<rparr>
            else s)
       \<and> run_actions (Hook d # acts) s = run_actions acts (snd (progress_hook d s))"
proof -
  have 1: "fst (progress_hook d s) = None"
    using assms
    by (simp add: progress_hook_def Let_def update_progress_def call_callback_def
        split: option.splits prod.splits)
  have 2: "snd (progress_hook d s) =
           (if st = PStr ''downloading'' then
              s\<lparr>trace := trace s @
                 (case callbacks s ''update_progress'' of
                    None \<Rightarrow> []
                  | Some cb \<Rightarrow>
                      [Notify (UpdateProgress ''downloading''
                         (Some \<lparr>percent = (case d ''_percent_str'' of None \<Rightarrow> PStr ''N/A'' | Some v \<Rightarrow> v),
                                speed = (case d ''_speed_str'' of None \<Rightarrow> PStr ''N/A'' | Some v \<Rightarrow> v),
                                eta = (case d ''_eta_str'' of None \<Rightarrow> PStr ''N/A'' | Some v \<Rightarrow> v)\<rparr>))])\<rparr>
            else s)"
    using assms
    by (simp add: progress_hook_def Let_def update_progress_def call_callback_def payload_get_def
        split: option.splits prod.splits)
  have 3: "run_actions (Hook d # acts) s = run_actions acts (snd (progress_hook d s))"
    using 1 by (cases "progress_hook d s") (simp add: and_then_def)
  from 1 2 3 show ?thesis by blast
qed

theorem progress_hook_downloading_witness:
  "fst (progress_hook [''status'' \<mapsto> PStr ''downloading'', ''_percent_str'' \<mapsto> PStr '' 50.0%'']
          gui_world) = None
   \<and> trace (snd (progress_hook
          [''status'' \<mapsto> PStr ''downloading'', ''_percent_str'' \<mapsto> PStr '' 50.0%''] gui_world))
       = [Notify (UpdateProgress ''downloading''
            (Some \<lparr>percent = PStr '' 50.0%'', speed = PStr ''N/A'', eta = PStr ''N/A''\<rparr>))]"
proof -
  let ?d = "[''status'' \<mapsto> PStr ''downloading'', ''_percent_str'' \<mapsto> PStr '' 50.0%'']"
  have 1: "?d ''status'' = Some (PStr ''downloading'')" by simp
  have 2: "PStr ''downloading'' \<noteq> PStr ''finished''" by simp
  have 3: "callbacks gui_world ''update_progress'' = Some (\<lambda>n. None)"
    by (simp add: gui_world_def gui_callbacks_def)
  have 4: "trace gui_world = []" by (simp add: gui_world_def)
  from progress_hook_downloading [of ?d "PStr ''downloading''" gui_world "[]", OF 1 2] 3 4
  show ?thesis by simp
qed

section \<open>The conversion block\<close>

lemma extends_refl: "extends P s s"
  unfolding extends_def by (rule exI [of _ "[]"]) simp

lemma extends_trans: "extends P s s' \<Longrightarrow> extends P s' s'' \<Longrightarrow> extends P s s''"
  unfolding extends_def by (elim exE conjE) (rule_tac x = "evs @ evsa" in exI, simp)

lemma extends_one: "P e \<Longrightarrow> extends P s (s\<lparr>trace := trace s @ [e]\<rparr>)"
  unfolding extends_def by (rule exI [of _ "[e]"]) simp

lemma extends_grows: "extends P s s' \<Longrightarrow> grows P s s'"
  by (auto simp: extends_def grows_def)

lemma extends_df: "extends P s s' \<Longrightarrow> downloaded_file s' = downloaded_file s"
  by (auto simp: extends_def)

lemma call_callback_extends:
  "call_callback name n s = (r, s') \<Longrightarrow> P (Notify n) \<Longrightarrow> extends P s s'"
  by (auto simp: call_callback_def extends_refl extends_one split: option.splits)

lemma on_error_extends: "on_error m s = (r, s') \<Longrightarrow> P (Notify (OnError m)) \<Longrightarrow> extends P s s'"
  unfolding on_error_def by (rule call_callback_extends)

lemma on_complete_extends: "on_complete s = (r, s') \<Longrightarrow> P (Notify OnComplete) \<Longrightarrow> extends P s s'"
  unfolding on_complete_def by (rule call_callback_extends)

lemma log_message_extends:
  "log_message m s = (r, s') \<Longrightarrow> P (Notify (LogMessage m)) \<Longrightarrow> extends P s s'"
  unfolding log_message_def by (rule call_callback_extends)

lemma and_then_extends:
  assumes "and_then x k = (r, s'')"
    and "\<And>r' s'. x = (r', s') \<Longrightarrow> extends P s s'"
    and "\<And>s'. x = (None, s') \<Longrightarrow> k s' = (r, s'') \<Longrightarrow> extends P s' s''"
  shows "extends P s s''"
  using and_then_cases [OF assms(1)] assms(2,3) by (blast intro: extends_trans)

lemma outer_handler_extends:
  assumes "outer_handler (r0, s0) = (r, s')" and "\<And>n. P (Notify n)"
  shows "extends P s0 s'"
  using assms
  by (cases r0) (auto simp: outer_handler_def extends_refl intro: on_error_extends)

lemma download_video_outer:
  "download_video E url output_dir selected_format with_subtitles with_thumbnail convert_to_mp4 s =
     outer_handler (download_video_try E url
        (build_ydl_opts output_dir selected_format with_subtitles with_thumbnail)
        selected_format convert_to_mp4 s)"
  by (simp add: download_video_def outer_handler_def Let_def split: prod.splits option.splits)

lemma try_after_fetch_raise:
  "download_video_fetch E url opts s = (Some e, s3) \<Longrightarrow>
     download_video_try E url opts fmt conv s = (Some e, s3)"
  by (simp add: download_video_try_def and_then_def)

lemma try_after_fetch_ok:
  "download_video_fetch E url opts s = (None, s3) \<Longrightarrow>
     download_video_try E url opts fmt conv s =
       (if fmt = ''best'' \<and> conv \<and> py_truthy (downloaded_file s3) then
          (case convert_step E s3 of
             (Raised e, s4) \<Rightarrow> (Some e, s4)
           | (Returned, s4) \<Rightarrow> (None, s4)
           | (Proceed, s4) \<Rightarrow> on_complete s4)
        else on_complete s3)"
  by (simp add: download_video_try_def and_then_def)

lemma hook_not_ydl: "is_hook_event e \<Longrightarrow> \<not> is_ydl_event e"
  by (cases e rule: is_hook_event.cases) auto

lemma fetch_events:
  assumes f: "download_video_fetch E url opts s = (r3, s3)"
  shows "callbacks s3 = callbacks s \<and>
         (\<exists>evs. trace s3 = trace s @ evs
                \<and> list_all (\<lambda>e. \<not> is_transcode_event e \<and> not_terminal e) evs
                \<and> ((YdlReturn \<in> set evs) = (r3 = None)))"
proof -
  let ?P = "\<lambda>e. \<not> is_transcode_event e \<and> \<not> is_ydl_event e \<and> not_terminal e"
  obtain r1 s1 where l: "log_message (''Starting download of '' @ url) s = (r1, s1)"
    by (cases "log_message (''Starting download of '' @ url) s")
  from log_message_extends [OF l, of ?P] obtain evs1 where
    e1: "s1 = s\<lparr>trace := trace s @ evs1\<rparr>" "list_all ?P evs1"
    by (auto simp: extends_def)
  have no1: "YdlReturn \<notin> set evs1" using e1(2) by (auto simp: list_all_iff)
  show ?thesis
  proof (cases r1)
    case (Some e)
    with f l have "r3 = Some e" "s3 = s1" by (auto simp: download_video_fetch_def and_then_def)
    with e1 no1 show ?thesis by (auto simp: list_all_iff)
  next
    case None
    with f l have y: "ydl_download E opts url (s1\<lparr>downloaded_file := PNone\<rparr>) = (r3, s3)"
      by (simp add: download_video_fetch_def and_then_def)
    from ydl_download_trace [OF y] obtain evs where
      g2: "callbacks s3 = callbacks s1"
          "trace s3 = trace s1 @ [YdlCall opts url] @ evs
             @ [case r3 of None \<Rightarrow> YdlReturn | Some e \<Rightarrow> YdlRaise e]"
          "list_all is_hook_event evs"
      by auto
    have h: "list_all ?P evs"
      using g2(3) by (auto simp: list_all_iff dest: hook_not_transcode hook_not_ydl hook_nonterminal)
    then have no2: "YdlReturn \<notin> set evs" by (auto simp: list_all_iff)
    let ?all = "evs1 @ [YdlCall opts url] @ evs
             @ [case r3 of None \<Rightarrow> YdlReturn | Some e \<Rightarrow> YdlRaise e]"
    have "trace s3 = trace s @ ?all" using g2(2) e1(1) by simp
    moreover have "list_all (\<lambda>e. \<not> is_transcode_event e \<and> not_terminal e) ?all"
      using e1(2) h by (auto simp: list_all_iff split: option.splits)
    moreover have "(YdlReturn \<in> set ?all) = (r3 = None)"
      using no1 no2 by (auto split: option.splits)
    moreover have "callbacks s3 = callbacks s" using g2(1) e1(1) by simp
    ultimately show ?thesis by blast
  qed
qed


lemma os_remove_extends: "os_remove E p s = (r, s') \<Longrightarrow> P (OsRemove p) \<Longrightarrow> extends P s s'"
  by (auto simp: os_remove_def intro: extends_one)




lemma finish_extends:
  assumes "outer_handler x = (r, s')" and "x = (r0, s0)" and "extends P s3 s0" and "\<And>n. P (Notify n)"
  shows "extends P s3 s'"
  using assms outer_handler_extends [of r0 s0 r s' P] by (auto intro: extends_trans)



section \<open>The conversion commands and their outcome\<close>

lemma convert_try_runs:
  assumes p: "spawn E (ffprobe_cmd src) = Exited prc pout perr"
    and c: "convert_try E src mp4_file s = (r, s')"
  shows "\<exists>evs. s' = s\<lparr>trace := trace s @
            [Run (ffprobe_cmd src),
             Run (if strip_with bytes_space pout \<noteq> [] then ffmpeg_video_cmd src mp4_file
                  else ffmpeg_audio_cmd src mp4_file)] @ evs\<rparr>"
proof -
  let ?cmd = "if strip_with bytes_space pout \<noteq> [] then ffmpeg_video_cmd src mp4_file
              else ffmpeg_audio_cmd src mp4_file"
  let ?s1 = "s\<lparr>trace := trace s @ [Run (ffprobe_cmd src)]\<rparr>"
  have p1: "subprocess_run E (ffprobe_cmd src) False s = (Inr pout, ?s1)"
    using p by (simp add: subprocess_run_def)
  obtain r2 s2 where c2: "subprocess_run E ?cmd True ?s1 = (r2, s2)"
    by (cases "subprocess_run E ?cmd True ?s1")
  from subprocess_run_state [OF c2] have s2: "s2 = s\<lparr>trace := trace s @ [Run (ffprobe_cmd src), Run ?cmd]\<rparr>"
    by simp
  show ?thesis
  proof (cases r2)
    case (Inl e)
    with c p1 c2 have "s' = s2" by (simp add: convert_try_def Let_def)
    with s2 show ?thesis by (intro exI [of _ "[]"]) simp
  next
    case (Inr out2)
    with c p1 c2 have
      "and_then (os_remove E src s2) (log_message (''Converted to mp4: '' @ basename mp4_file))
         = (r, s')"
      by (simp add: convert_try_def Let_def)
    then have "extends (\<lambda>e. True) s2 s'"
      by (rule and_then_extends) (auto intro: os_remove_extends log_message_extends)
    then obtain evs where "s' = s2\<lparr>trace := trace s2 @ evs\<rparr>" by (auto simp: extends_def)
    with s2 show ?thesis by (intro exI [of _ evs]) simp
  qed
qed

lemma convert_step_runs:
  assumes df: "downloaded_file s = PStr src"
    and sp: "splitext src = (base, ext)"
    and ext: "lower ext \<noteq> ''.mp4''"
    and p: "spawn E (ffprobe_cmd src) = Exited prc pout perr"
    and c: "convert_step E s = (fl, s')"
  shows "\<exists>evs. s' = s\<lparr>trace := trace s @
            [Sleep 2, Run (ffprobe_cmd src),
             Run (if strip_with bytes_space pout \<noteq> [] then ffmpeg_video_cmd src (base @ ''.mp4'')
                  else ffmpeg_audio_cmd src (base @ ''.mp4''))] @ evs\<rparr>"
proof -
  let ?s1 = "time_sleep 2 s"
  let ?cmd = "if strip_with bytes_space pout \<noteq> [] then ffmpeg_video_cmd src (base @ ''.mp4'')
              else ffmpeg_audio_cmd src (base @ ''.mp4'')"
  obtain r2 s2 where t: "convert_try E src (base @ ''.mp4'') ?s1 = (r2, s2)"
    by (cases "convert_try E src (base @ ''.mp4'') ?s1")
  from convert_try_runs [OF p t] obtain evs2 where
    s2: "s2 = s\<lparr>trace := trace s @ [Sleep 2, Run (ffprobe_cmd src), Run ?cmd] @ evs2\<rparr>"
    by (auto simp: time_sleep_def)
  have "extends (\<lambda>e. True) s2 s'"
  proof (cases r2)
    case None
    with c df sp ext t have "s' = s2" by (auto simp: convert_step_def Let_def time_sleep_def)
    then show ?thesis by (simp add: extends_refl)
  next
    case (Some e)
    show ?thesis
    proof (cases "is_SubprocessError e")
      case False
      with c df sp ext t Some have "s' = s2" by (auto simp: convert_step_def Let_def time_sleep_def)
      then show ?thesis by (simp add: extends_refl)
    next
      case True
      let ?m = "''ffmpeg conversion failed: '' @ py_str e"
      obtain r3 s3 where oe: "on_error ?m s2 = (r3, s3)" by (cases "on_error ?m s2")
      have g3: "extends (\<lambda>e. True) s2 s3" using oe by (rule on_error_extends) simp
      from c df sp ext t Some True oe have "s' = s3"
        by (auto simp: convert_step_def Let_def time_sleep_def split: option.splits)
      with g3 show ?thesis by simp
    qed
  qed
  then obtain evs3 where "s' = s2\<lparr>trace := trace s2 @ evs3\<rparr>" by (auto simp: extends_def)
  with s2 show ?thesis by (intro exI [of _ "evs2 @ evs3"]) simp
qed

text \<open>
  Claim C6. Let the download call return normally with a recorded file \<open>src\<close> whose
  extension is not \<open>.mp4\<close>, for a request with the format \<open>best\<close> and \<open>convert_to_mp4\<close>, and
  let the probe run to its end. After the settling delay and the probe, the next command
  that is run is: if the probe printed anything but whitespace (a video stream is present),
  ffmpeg with \<open>-c:v libx264 -preset ultrafast -c:a copy\<close>; otherwise ffmpeg with
  \<open>-vn -c:a copy\<close>; both read \<open>src\<close> and write the path of \<open>src\<close> with the extension
  replaced by \<open>.mp4\<close>.
\<close>

theorem transcode_command_variants:
  assumes f: "download_video_fetch E url (build_ydl_opts output_dir ''best'' with_subtitles with_thumbnail) s
                = (None, s3)"
    and df: "downloaded_file s3 = PStr src" and ne: "src \<noteq> []"
    and sp: "splitext src = (base, ext)" and ext: "lower ext \<noteq> ''.mp4''"
    and p: "spawn E [''ffprobe'', ''-v'', ''error'', ''-select_streams'', ''v:0'',
                     ''-show_entries'', ''stream=codec_type'', ''-of'', ''csv=p=0'', src]
              = Exited prc pout perr"
    and dv: "download_video E url output_dir ''best'' with_subtitles with_thumbnail True s = (r, s')"
  shows "\<exists>rest. trace s' = trace s3 @
           [Sleep 2,
            Run [''ffprobe'', ''-v'', ''error'', ''-select_streams'', ''v:0'',
                 ''-show_entries'', ''stream=codec_type'', ''-of'', ''csv=p=0'', src],
            Run (if strip_with bytes_space pout \<noteq> [] then
                   [''ffmpeg'', ''-y'', ''-i'', src, ''-c:v'', ''libx264'', ''-preset'', ''ultrafast'',
                    ''-c:a'', ''copy'', base @ ''.mp4'']
                 else
                   [''ffmpeg'', ''-y'', ''-i'', src, ''-vn'', ''-c:a'', ''copy'', base @ ''.mp4''])]
           @ rest"
proof -
  let ?opts = "build_ydl_opts output_dir ''best'' with_subtitles with_thumbnail"
  obtain fl s4 where c: "convert_step E s3 = (fl, s4)" by (cases "convert_step E s3")
  have p': "spawn E (ffprobe_cmd src) = Exited prc pout perr" using p by (simp add: ffprobe_cmd_def)
  from convert_step_runs [OF df sp ext p' c] obtain evs4 where
    s4: "s4 = s3\<lparr>trace := trace s3 @
            [Sleep 2, Run (ffprobe_cmd src),
             Run (if strip_with bytes_space pout \<noteq> [] then ffmpeg_video_cmd src (base @ ''.mp4'')
                  else ffmpeg_audio_cmd src (base @ ''.mp4''))] @ evs4\<rparr>"
    by blast
  have cond: "''best'' = ''best'' \<and> True \<and> py_truthy (downloaded_file s3)" using df ne by simp
  note tr = try_after_fetch_ok [OF f, of "''best''" True]
  have "\<exists>r0 s0. download_video_try E url ?opts ''best'' True s = (r0, s0)
              \<and> extends (\<lambda>e. True) s4 s0"
  proof (cases fl)
    case Proceed
    obtain r0 s0 where oc: "on_complete s4 = (r0, s0)" by (cases "on_complete s4")
    have "extends (\<lambda>e. True) s4 s0" using oc by (rule on_complete_extends) simp
    with tr cond c Proceed oc show ?thesis by auto
  next
    case Returned
    with tr cond c show ?thesis by (auto simp: extends_refl)
  next
    case (Raised e)
    with tr cond c show ?thesis by (auto simp: extends_refl)
  qed
  then obtain r0 s0 where
    t0: "download_video_try E url ?opts ''best'' True s = (r0, s0)"
    and x0: "extends (\<lambda>e. True) s4 s0" by blast
  from dv [unfolded download_video_outer] t0 have "outer_handler (r0, s0) = (r, s')" by simp
  then have "extends (\<lambda>e. True) s0 s'" by (rule outer_handler_extends) simp
  with x0 have "extends (\<lambda>e. True) s4 s'" by (rule extends_trans)
  then obtain evs5 where "s' = s4\<lparr>trace := trace s4 @ evs5\<rparr>" by (auto simp: extends_def)
  with s4 show ?thesis
    by (intro exI [of _ "evs4 @ evs5"])
       (simp add: ffprobe_cmd_def ffmpeg_video_cmd_def ffmpeg_audio_cmd_def)
qed

theorem transcode_command_variants_witness:
  "(\<exists>rest. trace (snd (download_video demo_env ''https://example/video'' ''/tmp/out'' ''best''
                         False False True gui_world))
      = trace (snd (download_video_fetch demo_env ''https://example/video''
                      (build_ydl_opts ''/tmp/out'' ''best'' False False) gui_world)) @
        [Sleep 2,
         Run [''ffprobe'', ''-v'', ''error'', ''-select_streams'', ''v:0'',
              ''-show_entries'', ''stream=codec_type'', ''-of'', ''csv=p=0'', ''/tmp/out/clip.webm''],
         Run [''ffmpeg'', ''-y'', ''-i'', ''/tmp/out/clip.webm'', ''-c:v'', ''libx264'', ''-preset'',
              ''ultrafast'', ''-c:a'', ''copy'', ''/tmp/out/clip.mp4'']] @ rest)
   \<and> (\<exists>rest. trace (snd (download_video audio_only_env ''https://example/talk'' ''/tmp/out'' ''best''
                         False False True gui_world))
      = trace (snd (download_video_fetch audio_only_env ''https://example/talk''
                      (build_ydl_opts ''/tmp/out'' ''best'' False False) gui_world)) @
        [Sleep 2,
         Run [''ffprobe'', ''-v'', ''error'', ''-select_streams'', ''v:0'',
              ''-show_entries'', ''stream=codec_type'', ''-of'', ''csv=p=0'', ''/tmp/out/talk.m4a''],
         Run [''ffmpeg'', ''-y'', ''-i'', ''/tmp/out/talk.m4a'', ''-vn'', ''-c:a'', ''copy'',
              ''/tmp/out/talk.mp4'']] @ rest)"
proof -
  let ?F = "download_video_fetch demo_env ''https://example/video''
              (build_ydl_opts ''/tmp/out'' ''best'' False False) gui_world"
  let ?D = "download_video demo_env ''https://example/video'' ''/tmp/out'' ''best'' False False True
              gui_world"
  let ?G = "download_video_fetch audio_only_env ''https://example/talk''
              (build_ydl_opts ''/tmp/out'' ''best'' False False) gui_world"
  let ?H = "download_video audio_only_env ''https://example/talk'' ''/tmp/out'' ''best'' False False
              True gui_world"
  have f1: "fst ?F = None" by code_simp
  then have f: "?F = (None, snd ?F)" by (simp add: prod_eq_iff)
  have df: "downloaded_file (snd ?F) = PStr ''/tmp/out/clip.webm''" by code_simp
  have ne: "''/tmp/out/clip.webm'' \<noteq> []" by simp
  have sp: "splitext ''/tmp/out/clip.webm'' = (''/tmp/out/clip'', ''.webm'')" by code_simp
  have ext: "lower ''.webm'' \<noteq> ''.mp4''" by code_simp
  have p: "spawn demo_env [''ffprobe'', ''-v'', ''error'', ''-select_streams'', ''v:0'',
              ''-show_entries'', ''stream=codec_type'', ''-of'', ''csv=p=0'', ''/tmp/out/clip.webm'']
             = Exited 0 ''video'' []"
    by (simp add: demo_env_def)
  have st: "strip_with bytes_space ''video'' \<noteq> []" by code_simp
  have d: "?D = (fst ?D, snd ?D)" by simp
  have g1: "fst ?G = None" by code_simp
  then have g: "?G = (None, snd ?G)" by (simp add: prod_eq_iff)
  have dg: "downloaded_file (snd ?G) = PStr ''/tmp/out/talk.m4a''" by code_simp
  have neg: "''/tmp/out/talk.m4a'' \<noteq> []" by simp
  have spg: "splitext ''/tmp/out/talk.m4a'' = (''/tmp/out/talk'', ''.m4a'')" by code_simp
  have extg: "lower ''.m4a'' \<noteq> ''.mp4''" by code_simp
  have pg: "spawn audio_only_env [''ffprobe'', ''-v'', ''error'', ''-select_streams'', ''v:0'',
              ''-show_entries'', ''stream=codec_type'', ''-of'', ''csv=p=0'', ''/tmp/out/talk.m4a'']
             = Exited 0 [CHR 0x0A] []"
    by (simp add: audio_only_env_def)
  have stg: "strip_with bytes_space [CHR 0x0A] = []" by code_simp
  have h: "?H = (fst ?H, snd ?H)" by simp
  from transcode_command_variants [OF f df ne sp ext p d] st
       transcode_command_variants [OF g dg neg spg extg pg h] stg
  show ?thesis by simp
qed

text \<open>
  Claim C4, as stated, fails: ffmpeg exits with 1 and its captured standard error is
  \<open>/tmp/out/clip.webm: Invalid data found when processing input\<close>; the Failure that is
  notified carries the text of the \<open>CalledProcessError\<close>, which names the command and the
  return code, and the captured text is no part of it.
\<close>

theorem transcode_failure_text_counterexample:
  "spawn ffmpeg_fails_env
     [''ffmpeg'', ''-y'', ''-i'', ''/tmp/out/clip.webm'', ''-c:v'', ''libx264'', ''-preset'',
      ''ultrafast'', ''-c:a'', ''copy'', ''/tmp/out/clip.mp4'']
     = Exited 1 [] ''/tmp/out/clip.webm: Invalid data found when processing input''
   \<and> trace (snd (download_video ffmpeg_fails_env ''https://example/video'' ''/tmp/out'' ''best''
                    False False True gui_world))
     = [Notify (LogMessage ''Starting download of https://example/video''),
        YdlCall [(''outtmpl'', OStr ''/tmp/out/%(title)s.%(ext)s''), (''logger'', OLogger),
                 (''progress_hooks'', OHooks), (''quiet'', OBool True)] ''https://example/video'',
        Notify (LogMessage ''Download finished: clip.webm''),
        Notify (UpdateProgress ''processing'' None), YdlReturn, Sleep 2,
        Run [''ffprobe'', ''-v'', ''error'', ''-select_streams'', ''v:0'',
             ''-show_entries'', ''stream=codec_type'', ''-of'', ''csv=p=0'', ''/tmp/out/clip.webm''],
        Run [''ffmpeg'', ''-y'', ''-i'', ''/tmp/out/clip.webm'', ''-c:v'', ''libx264'', ''-preset'',
             ''ultrafast'', ''-c:a'', ''copy'', ''/tmp/out/clip.mp4''],
        Notify (OnError ''ffmpeg conversion failed: Command '['ffmpeg', '-y', '-i', '/tmp/out/clip.webm', '-c:v', 'libx264', '-preset', 'ultrafast', '-c:a', 'copy', '/tmp/out/clip.mp4']' returned non-zero exit status 1.'')]
   \<and> \<not> sublist ''Invalid data found when processing input''
         ''ffmpeg conversion failed: Command '['ffmpeg', '-y', '-i', '/tmp/out/clip.webm', '-c:v', 'libx264', '-preset', 'ultrafast', '-c:a', 'copy', '/tmp/out/clip.mp4']' returned non-zero exit status 1.''"
  by code_simp

lemma cpe_expand:
  "called_process_error_str sg c rc =
     ''Command '' @ [CHR 0x27] @ py_str_list c @ [CHR 0x27] @
       (if rc < 0 then
          (case sg (nat (- rc)) of
             Some name \<Rightarrow> '' died with <Signals.'' @ name @ '': '' @ py_str_int (- rc) @ ''>.''
           | None \<Rightarrow> '' died with unknown signal '' @ py_str_int (- rc) @ ''.'')
        else '' returned non-zero exit status '' @ py_str_int rc @ ''.'')"
  by (simp add: called_process_error_str_def split: option.splits)

text \<open>
  Claim C4, amended. Let the callbacks return normally, with the log, completion and
  error callbacks registered; let the download call return normally with a recorded file
  whose extension is not \<open>.mp4\<close>, for a request with the format \<open>best\<close> and
  \<open>convert_to_mp4\<close>; and let the probe run to its end, so that the conversion block reaches
  the ffmpeg command \<open>cmd\<close>. If the command cannot be started, the request ends with a Failure whose message
  is the text of the exception (after \<open>ffmpeg conversion failed: \<close> when the exception is a
  \<open>SubprocessError\<close>). If it exits with a positive return code, the request ends with the
  Failure \<open>ffmpeg conversion failed: Command '\<close>, the command as Python prints a list of
  strings, \<open>' returned non-zero exit status \<close>, the return code and a full stop. If it is
  ended by a signal (a negative return code), the Failure has \<open>died with\<close> and the signal
  in the place of the exit status. In these three cases \<open>os.remove\<close> is not called, and the
  message is built from the command and the return code: the output captured from the
  subprocess does not enter it. If the command exits with 0, the source file is removed;
  when the removal succeeds a log line \<open>Converted to mp4: \<close> with the base name of the new
  file follows, and then Success; when the removal raises, the request ends with a Failure.
\<close>

theorem transcode_outcome:
  assumes q: "\<forall>name cb n. callbacks s name = Some cb \<longrightarrow> cb n = None"
    and rege: "callbacks s ''on_error'' = Some ecb"
    and regc: "callbacks s ''on_complete'' = Some ccb"
    and regl: "callbacks s ''log_message'' = Some lcb"
    and f: "download_video_fetch E url (build_ydl_opts output_dir ''best'' with_subtitles with_thumbnail) s
              = (None, s3)"
    and df: "downloaded_file s3 = PStr src" and ne: "src \<noteq> []"
    and sp: "splitext src = (base, ext)" and ext: "lower ext \<noteq> ''.mp4''"
    and p: "spawn E (ffprobe_cmd src) = Exited prc pout perr"
    and cmd: "cmd = (if strip_with bytes_space pout \<noteq> [] then ffmpeg_video_cmd src (base @ ''.mp4'')
                     else ffmpeg_audio_cmd src (base @ ''.mp4''))"
  shows "download_video E url output_dir ''best'' with_subtitles with_thumbnail True s =
     (None, s3\<lparr>trace := trace s3 @ [Sleep 2, Run (ffprobe_cmd src), Run cmd] @
        (case spawn E cmd of
           SpawnRaises e \<Rightarrow>
             [Notify (OnError (if is_SubprocessError e
                               then ''ffmpeg conversion failed: '' @ py_str e else py_str e))]
         | Exited rc out err \<Rightarrow>
             if 0 < rc then
               [Notify (OnError (''ffmpeg conversion failed: Command '' @ [CHR 0x27]
                  @ py_str_list cmd @ [CHR 0x27] @ '' returned non-zero exit status ''
                  @ py_str_int rc @ ''.''))]
             else if rc < 0 then
               [Notify (OnError (''ffmpeg conversion failed: Command '' @ [CHR 0x27]
                  @ py_str_list cmd @ [CHR 0x27] @
                  (case signal_names E (nat (- rc)) of
                     Some name \<Rightarrow>
                       '' died with <Signals.'' @ name @ '': '' @ py_str_int (- rc) @ ''>.''
                   | None \<Rightarrow> '' died with unknown signal '' @ py_str_int (- rc) @ ''.'')))]
             else
               (case remove_raises E src of
                  None \<Rightarrow>
                    [OsRemove src,
                     Notify (LogMessage (''Converted to mp4: '' @ basename (base @ ''.mp4''))),
                     Notify OnComplete]
                | Some e \<Rightarrow>
                    [OsRemove src,
                     Notify (OnError (if is_SubprocessError e
                                      then ''ffmpeg conversion failed: '' @ py_str e
                                      else py_str e))]))\<rparr>)"
proof -
  from fetch_events [OF f] have cb3: "callbacks s3 = callbacks s" by blast
  have e3: "callbacks s3 ''on_error'' = Some ecb" "callbacks s3 ''on_complete'' = Some ccb"
    "callbacks s3 ''log_message'' = Some lcb"
    using cb3 rege regc regl by simp_all
  have qs: "\<And>n. ecb n = None" "\<And>n. ccb n = None" "\<And>n. lcb n = None"
    using q rege regc regl by blast+
  have cond: "''best'' = ''best'' \<and> True \<and> py_truthy (downloaded_file s3)" using df ne by simp
  note tr = try_after_fetch_ok [OF f, of "''best''" True]
  show ?thesis
  proof (cases "spawn E cmd")
    case (SpawnRaises e)
    with tr cond df sp ext p cmd e3 qs show ?thesis
      unfolding download_video_outer
      by (cases "is_SubprocessError e")
         (simp_all add: outer_handler_def convert_step_def convert_try_def subprocess_run_def
            time_sleep_def on_error_def call_callback_def Let_def)
  next
    case (Exited rc out err)
    consider (pos) "0 < rc" | (neg) "rc < 0" | (zero) "rc = 0" by linarith
    then show ?thesis
    proof cases
      case pos
      with Exited tr cond df sp ext p cmd e3 qs show ?thesis
        unfolding download_video_outer
        by (simp add: outer_handler_def convert_step_def convert_try_def subprocess_run_def
            time_sleep_def on_error_def call_callback_def Let_def cpe_expand)
    next
      case neg
      with Exited tr cond df sp ext p cmd e3 qs show ?thesis
        unfolding download_video_outer
        by (simp add: outer_handler_def convert_step_def convert_try_def subprocess_run_def
            time_sleep_def on_error_def call_callback_def Let_def cpe_expand)
    next
      case zero
      show ?thesis
      proof (cases "remove_raises E src")
        case None
        with zero Exited tr cond df sp ext p cmd e3 qs show ?thesis
          unfolding download_video_outer
          by (simp add: outer_handler_def convert_step_def convert_try_def subprocess_run_def
              time_sleep_def on_error_def on_complete_def log_message_def os_remove_def
              and_then_def call_callback_def Let_def)
      next
        case (Some e)
        with zero Exited tr cond df sp ext p cmd e3 qs show ?thesis
          unfolding download_video_outer
          by (cases "is_SubprocessError e")
             (simp_all add: outer_handler_def convert_step_def convert_try_def subprocess_run_def
                time_sleep_def on_error_def on_complete_def log_message_def os_remove_def
                and_then_def call_callback_def Let_def)
      qed
    qed
  qed
qed

theorem transcode_outcome_witness:
  "trace (snd (download_video ffmpeg_fails_env ''https://example/video'' ''/tmp/out'' ''best''
                 False False True gui_world))
     = trace (snd (download_video_fetch ffmpeg_fails_env ''https://example/video''
                     (build_ydl_opts ''/tmp/out'' ''best'' False False) gui_world)) @
       [Sleep 2, Run (ffprobe_cmd ''/tmp/out/clip.webm''),
        Run (ffmpeg_video_cmd ''/tmp/out/clip.webm'' ''/tmp/out/clip.mp4''),
        Notify (OnError ''ffmpeg conversion failed: Command '['ffmpeg', '-y', '-i', '/tmp/out/clip.webm', '-c:v', 'libx264', '-preset', 'ultrafast', '-c:a', 'copy', '/tmp/out/clip.mp4']' returned non-zero exit status 1.'')]
   \<and> trace (snd (download_video ffmpeg_killed_env ''https://example/video'' ''/tmp/out'' ''best''
                 False False True gui_world))
     = trace (snd (download_video_fetch ffmpeg_killed_env ''https://example/video''
                     (build_ydl_opts ''/tmp/out'' ''best'' False False) gui_world)) @
       [Sleep 2, Run (ffprobe_cmd ''/tmp/out/clip.webm''),
        Run (ffmpeg_video_cmd ''/tmp/out/clip.webm'' ''/tmp/out/clip.mp4''),
        Notify (OnError ''ffmpeg conversion failed: Command '['ffmpeg', '-y', '-i', '/tmp/out/clip.webm', '-c:v', 'libx264', '-preset', 'ultrafast', '-c:a', 'copy', '/tmp/out/clip.mp4']' died with <Signals.SIGKILL: 9>.'')]
   \<and> trace (snd (download_video demo_env ''https://example/video'' ''/tmp/out'' ''best''
                 False False True gui_world))
     = trace (snd (download_video_fetch demo_env ''https://example/video''
                     (build_ydl_opts ''/tmp/out'' ''best'' False False) gui_world)) @
       [Sleep 2, Run (ffprobe_cmd ''/tmp/out/clip.webm''),
        Run (ffmpeg_video_cmd ''/tmp/out/clip.webm'' ''/tmp/out/clip.mp4''),
        OsRemove ''/tmp/out/clip.webm'',
        Notify (LogMessage ''Converted to mp4: clip.mp4''), Notify OnComplete]"
proof -
  let ?F = "download_video_fetch ffmpeg_fails_env ''https://example/video''
              (build_ydl_opts ''/tmp/out'' ''best'' False False) gui_world"
  let ?K = "download_video_fetch ffmpeg_killed_env ''https://example/video''
              (build_ydl_opts ''/tmp/out'' ''best'' False False) gui_world"
  let ?G = "download_video_fetch demo_env ''https://example/video''
              (build_ydl_opts ''/tmp/out'' ''best'' False False) gui_world"
  let ?cmd = "ffmpeg_video_cmd ''/tmp/out/clip.webm'' ''/tmp/out/clip.mp4''"
  have q: "\<forall>name cb n. callbacks gui_world name = Some cb \<longrightarrow> cb n = None"
    using gui_callbacks_quiet by (simp add: gui_world_def)
  have re: "callbacks gui_world ''on_error'' = Some (\<lambda>n. None)"
    and rc: "callbacks gui_world ''on_complete'' = Some (\<lambda>n. None)"
    and rl: "callbacks gui_world ''log_message'' = Some (\<lambda>n. None)"
    by (simp_all add: gui_world_def gui_callbacks_def)
  have f1: "fst ?F = None" by code_simp
  then have f: "?F = (None, snd ?F)" by (simp add: prod_eq_iff)
  have df: "downloaded_file (snd ?F) = PStr ''/tmp/out/clip.webm''" by code_simp
  have k1: "fst ?K = None" by code_simp
  then have k: "?K = (None, snd ?K)" by (simp add: prod_eq_iff)
  have dk: "downloaded_file (snd ?K) = PStr ''/tmp/out/clip.webm''" by code_simp
  have g1: "fst ?G = None" by code_simp
  then have g: "?G = (None, snd ?G)" by (simp add: prod_eq_iff)
  have dg: "downloaded_file (snd ?G) = PStr ''/tmp/out/clip.webm''" by code_simp
  have ne: "''/tmp/out/clip.webm'' \<noteq> []" by simp
  have sp: "splitext ''/tmp/out/clip.webm'' = (''/tmp/out/clip'', ''.webm'')" by code_simp
  have ext: "lower ''.webm'' \<noteq> ''.mp4''" by code_simp
  have pf: "spawn ffmpeg_fails_env (ffprobe_cmd ''/tmp/out/clip.webm'') = Exited 0 ''video'' []"
    by (simp add: ffmpeg_fails_env_def ffprobe_cmd_def)
  have pk: "spawn ffmpeg_killed_env (ffprobe_cmd ''/tmp/out/clip.webm'') = Exited 0 ''video'' []"
    by (simp add: ffmpeg_killed_env_def ffprobe_cmd_def)
  have pg: "spawn demo_env (ffprobe_cmd ''/tmp/out/clip.webm'') = Exited 0 ''video'' []"
    by (simp add: demo_env_def ffprobe_cmd_def)
  have st: "strip_with bytes_space ''video'' \<noteq> []" by code_simp
  have cmd: "?cmd = (if strip_with bytes_space ''video'' \<noteq> []
                     then ffmpeg_video_cmd ''/tmp/out/clip.webm'' (''/tmp/out/clip'' @ ''.mp4'')
                     else ffmpeg_audio_cmd ''/tmp/out/clip.webm'' (''/tmp/out/clip'' @ ''.mp4''))"
    using st by simp
  have xf: "spawn ffmpeg_fails_env ?cmd
              = Exited 1 [] ''/tmp/out/clip.webm: Invalid data found when processing input''"
    by (simp add: ffmpeg_fails_env_def ffmpeg_video_cmd_def)
  have xk: "spawn ffmpeg_killed_env ?cmd = Exited (- 9) [] []"
    by (simp add: ffmpeg_killed_env_def ffmpeg_video_cmd_def)
  have sk: "signal_names ffmpeg_killed_env (nat (- (- 9))) = Some ''SIGKILL''"
    by (simp add: ffmpeg_killed_env_def demo_signals_def)
  have xg: "spawn demo_env ?cmd = Exited 0 [] []"
    by (simp add: demo_env_def ffmpeg_video_cmd_def)
  have rg: "remove_raises demo_env ''/tmp/out/clip.webm'' = None" by (simp add: demo_env_def)
  have b: "basename (''/tmp/out/clip'' @ ''.mp4'') = ''clip.mp4''" by code_simp
  have t1: "''ffmpeg conversion failed: Command '' @ [CHR 0x27] @ py_str_list ?cmd @ [CHR 0x27]
              @ '' returned non-zero exit status '' @ py_str_int 1 @ ''.''
            = ''ffmpeg conversion failed: Command '['ffmpeg', '-y', '-i', '/tmp/out/clip.webm', '-c:v', 'libx264', '-preset', 'ultrafast', '-c:a', 'copy', '/tmp/out/clip.mp4']' returned non-zero exit status 1.''"
    by code_simp
  have t2: "''ffmpeg conversion failed: Command '' @ [CHR 0x27] @ py_str_list ?cmd @ [CHR 0x27]
              @ '' died with <Signals.'' @ ''SIGKILL'' @ '': '' @ py_str_int 9 @ ''>.''
            = ''ffmpeg conversion failed: Command '['ffmpeg', '-y', '-i', '/tmp/out/clip.webm', '-c:v', 'libx264', '-preset', 'ultrafast', '-c:a', 'copy', '/tmp/out/clip.mp4']' died with <Signals.SIGKILL: 9>.''"
    by code_simp
  from transcode_outcome [OF q re rc rl f df ne sp ext pf cmd] xf
  have 1: "trace (snd (download_video ffmpeg_fails_env ''https://example/video'' ''/tmp/out'' ''best''
                 False False True gui_world))
     = trace (snd ?F) @
       [Sleep 2, Run (ffprobe_cmd ''/tmp/out/clip.webm''), Run ?cmd,
        Notify (OnError (''ffmpeg conversion failed: Command '' @ [CHR 0x27] @ py_str_list ?cmd
           @ [CHR 0x27] @ '' returned non-zero exit status '' @ py_str_int 1 @ ''.''))]"
    by simp
  from transcode_outcome [OF q re rc rl k dk ne sp ext pk cmd] xk sk
  have 2: "trace (snd (download_video ffmpeg_killed_env ''https://example/video'' ''/tmp/out'' ''best''
                 False False True gui_world))
     = trace (snd ?K) @
       [Sleep 2, Run (ffprobe_cmd ''/tmp/out/clip.webm''), Run ?cmd,
        Notify (OnError (''ffmpeg conversion failed: Command '' @ [CHR 0x27] @ py_str_list ?cmd
           @ [CHR 0x27] @ '' died with <Signals.'' @ ''SIGKILL'' @ '': '' @ py_str_int 9 @ ''>.''))]"
    by simp
  from transcode_outcome [OF q re rc rl g dg ne sp ext pg cmd] xg rg b
  have 3: "trace (snd (download_video demo_env ''https://example/video'' ''/tmp/out'' ''best''
                 False False True gui_world))
     = trace (snd ?G) @
       [Sleep 2, Run (ffprobe_cmd ''/tmp/out/clip.webm''), Run ?cmd,
        OsRemove ''/tmp/out/clip.webm'',
        Notify (LogMessage ''Converted to mp4: clip.mp4''), Notify OnComplete]"
    by simp
  from 1 [unfolded t1] 2 [unfolded t2] 3 show ?thesis by blast
qed

section \<open>Downloads started from the window\<close>

lemma download_video_no_convert:
  assumes dv: "download_video E url output_dir selected_format with_subtitles with_thumbnail False s
                 = (r, s')"
  shows "\<exists>evs. trace s' = trace s @ evs \<and> list_all (\<lambda>e. \<not> is_transcode_event e) evs"
proof -
  let ?opts = "build_ydl_opts output_dir selected_format with_subtitles with_thumbnail"
  let ?N = "\<lambda>e. \<not> is_transcode_event e"
  obtain r3 s3 where f: "download_video_fetch E url ?opts s = (r3, s3)"
    by (cases "download_video_fetch E url ?opts s")
  from fetch_events [OF f] obtain evs3 where
    g3: "trace s3 = trace s @ evs3" "list_all (\<lambda>e. \<not> is_transcode_event e \<and> not_terminal e) evs3"
    by blast
  note dv' = dv [unfolded download_video_outer]
  have "extends ?N s3 s'"
  proof (cases r3)
    case (Some e)
    with f have "download_video_try E url ?opts selected_format False s = (Some e, s3)"
      by (simp add: try_after_fetch_raise)
    with dv' show ?thesis by (auto intro: outer_handler_extends)
  next
    case None
    obtain r0 s0 where oc: "on_complete s3 = (r0, s0)" by (cases "on_complete s3")
    have x: "extends ?N s3 s0" using oc by (rule on_complete_extends) simp
    from try_after_fetch_ok [OF f [unfolded None], of selected_format False] oc
    have "download_video_try E url ?opts selected_format False s = (r0, s0)" by simp
    with dv' x show ?thesis by (auto intro: finish_extends)
  qed
  then obtain evs5 where e5: "s' = s3\<lparr>trace := trace s3 @ evs5\<rparr>" "list_all ?N evs5"
    by (auto simp: extends_def)
  have "trace s' = trace s @ (evs3 @ evs5)" using e5(1) g3(1) by simp
  moreover have "list_all ?N (evs3 @ evs5)" using e5(2) g3(2) by (auto simp: list_all_iff)
  ultimately show ?thesis by blast
qed

text \<open>
  Claim C10. \<open>YtDlpGui.start_download\<close> passes five arguments to
  \<open>YtDlpDownloader.start_download\<close>, so \<open>convert_to_mp4\<close> takes its default \<open>False\<close>: the
  worker runs \<open>download_video\<close> with \<open>convert_to_mp4 = False\<close>, and whatever the window's
  fields and the collaborators are, the events added to the history of the window's
  downloader contain no settling delay, no subprocess and no removal of a file.
\<close>

theorem gui_never_converts:
  "gui_start_download E g =
     (if strip_with str_space (url_entry g) = [] then
        g\<lparr>message_boxes := message_boxes g @ [(''warning'', ''Error'', ''Please enter a URL'')]\<rparr>
      else
        g\<lparr>progress_bar_visible := True, status_label := ''Downloading...'',
          downloader_obj :=
            snd (download_video E (strip_with str_space (url_entry g)) (output_dir_entry g)
                   (format_combo g) (subtitles_check g) (thumbnail_check g) False
                   (downloader_obj g))\<rparr>)
   \<and> (\<exists>evs. trace (downloader_obj (gui_start_download E g)) = trace (downloader_obj g) @ evs
          \<and> filter is_transcode_event evs = [])"
proof -
  have eq: "gui_start_download E g =
     (if strip_with str_space (url_entry g) = [] then
        g\<lparr>message_boxes := message_boxes g @ [(''warning'', ''Error'', ''Please enter a URL'')]\<rparr>
      else
        g\<lparr>progress_bar_visible := True, status_label := ''Downloading...'',
          downloader_obj :=
            snd (download_video E (strip_with str_space (url_entry g)) (output_dir_entry g)
                   (format_combo g) (subtitles_check g) (thumbnail_check g) False
                   (downloader_obj g))\<rparr>)"
    by (simp add: gui_start_download_def start_download_def arg_or_default_def Let_def)
  have "\<exists>evs. trace (downloader_obj (gui_start_download E g)) = trace (downloader_obj g) @ evs
          \<and> filter is_transcode_event evs = []"
  proof (cases "strip_with str_space (url_entry g) = []")
    case True
    with eq show ?thesis by simp
  next
    case False
    let ?D = "download_video E (strip_with str_space (url_entry g)) (output_dir_entry g)
                   (format_combo g) (subtitles_check g) (thumbnail_check g) False
                   (downloader_obj g)"
    have "?D = (fst ?D, snd ?D)" by simp
    from download_video_no_convert [OF this] obtain evs where
      "trace (snd ?D) = trace (downloader_obj g) @ evs" "list_all (\<lambda>e. \<not> is_transcode_event e) evs"
      by blast
    then have "trace (snd ?D) = trace (downloader_obj g) @ evs \<and> filter is_transcode_event evs = []"
      by (simp add: filter_empty_conv list_all_iff)
    with eq False show ?thesis by auto
  qed
  with eq show ?thesis by blast
qed

theorem gui_never_converts_witness:
  "(\<exists>evs. trace (downloader_obj (gui_start_download demo_env demo_gui))
             = trace (downloader_obj demo_gui) @ evs
          \<and> filter is_transcode_event evs = [])
   \<and> trace (downloader_obj (gui_start_download demo_env demo_gui)) =
       [Notify (LogMessage ''Starting download of https://example/video''),
        YdlCall [(''outtmpl'', OStr ''/tmp/out/%(title)s.%(ext)s''), (''logger'', OLogger),
                 (''progress_hooks'', OHooks), (''quiet'', OBool True)] ''https://example/video'',
        Notify (LogMessage ''[youtube] Extracting URL''),
        Notify (UpdateProgress ''downloading''
           (Some \<lparr>percent = PStr '' 50.0%'', speed = PStr ''N/A'', eta = PStr ''N/A''\<rparr>)),
        Notify (LogMessage ''Download finished: clip.webm''),
        Notify (UpdateProgress ''processing'' None), YdlReturn, Notify OnComplete]"
proof -
  have 1: "\<exists>evs. trace (downloader_obj (gui_start_download demo_env demo_gui))
             = trace (downloader_obj demo_gui) @ evs
          \<and> filter is_transcode_event evs = []"
    using gui_never_converts [of demo_env demo_gui] by (rule conjunct2)
  have 2: "trace (downloader_obj (gui_start_download demo_env demo_gui)) =
       [Notify (LogMessage ''Starting download of https://example/video''),
        YdlCall [(''outtmpl'', OStr ''/tmp/out/%(title)s.%(ext)s''), (''logger'', OLogger),
                 (''progress_hooks'', OHooks), (''quiet'', OBool True)] ''https://example/video'',
        Notify (LogMessage ''[youtube] Extracting URL''),
        Notify (UpdateProgress ''downloading''
           (Some \<lparr>percent = PStr '' 50.0%'', speed = PStr ''N/A'', eta = PStr ''N/A''\<rparr>)),
        Notify (LogMessage ''Download finished: clip.webm''),
        Notify (UpdateProgress ''processing'' None), YdlReturn, Notify OnComplete]"
    by code_simp
  from 1 2 show ?thesis by (rule conjI)
qed

end
